theory Spec2Isabelle
  imports Main "HOL-Library.Sublist"
begin

section \<open>The self-update subsystem of tasklog (internal/updater/updater.go)\<close>

text \<open>
  The theory embeds the functions of \<^verbatim>\<open>updater.go\<close>. Go strings are byte strings and
  are modelled as \<open>string\<close>; file contents are byte strings too. A Go \<^verbatim>\<open>error\<close> is a
  value of the datatype \<open>error\<close>; a function returning \<^verbatim>\<open>(T, error)\<close> returns a sum or,
  where the source returns a value together with an error, a pair with an
  \<open>error option\<close>. Everything outside the package (the version package, the GitHub
  client, the operating system, the clock, the standard library) is a field of the
  record \<open>env\<close>.
\<close>

subsection \<open>Strings\<close>

type_synonym path = string
type_synonym bytes = string

text \<open>\<^verbatim>\<open>strings.Contains(s, substr)\<close>: \<open>substr\<close> occurs in \<open>s\<close> at some position.\<close>

fun strings_Contains :: "string \<Rightarrow> string \<Rightarrow> bool" where
  "strings_Contains [] substr = (substr = [])"
| "strings_Contains (c # cs) substr = (prefix substr (c # cs) \<or> strings_Contains cs substr)"

text \<open>\<^verbatim>\<open>strings.Split(s, sep)\<close> for a separator of one byte. The result is never empty:
  \<^verbatim>\<open>strings.Split("", ".")\<close> is \<^verbatim>\<open>[""]\<close>.\<close>

fun strings_Split :: "string \<Rightarrow> char \<Rightarrow> string list" where
  "strings_Split [] sep = [[]]"
| "strings_Split (c # cs) sep =
     (if c = sep then [] # strings_Split cs sep
      else (case strings_Split cs sep of
              [] \<Rightarrow> [[c]]
            | p # ps \<Rightarrow> (c # p) # ps))"

subsection \<open>Errors\<close>

text \<open>
  \<open>External\<close> is an error value made outside the package (by the operating system, the
  network client, the version parser). \<open>Errorf m\<close> is \<^verbatim>\<open>fmt.Errorf(m)\<close> with its
  arguments already formatted; \<open>Wrap pre e suf\<close> is \<^verbatim>\<open>fmt.Errorf(pre + ": %w" + suf, e)\<close>.
\<close>

datatype error =
    External string
  | Errorf string
  | Wrap string error string

fun Error :: "error \<Rightarrow> string" where
  "Error (External m) = m"
| "Error (Errorf m) = m"
| "Error (Wrap pre e suf) = pre @ '': '' @ Error e @ suf"

subsection \<open>Data model\<close>

text \<open>A \<^verbatim>\<open>time.Time\<close> is a count of nanoseconds, a \<^verbatim>\<open>time.Duration\<close> an \<^verbatim>\<open>int64\<close> of
  nanoseconds.\<close>

type_synonym time = int
type_synonym duration = int

record UpdateInfo =
  ui_CurrentVersion :: string
  ui_LatestVersion :: string
  ui_ReleaseURL :: string
  ui_ReleaseNotes :: string
  ui_DownloadURL :: string
  ui_AssetName :: string
  ui_IsPreRelease :: bool

record UpdateNotification =
  un_Available :: bool
  un_CurrentVersion :: string
  un_LatestVersion :: string
  un_IsPreRelease :: bool
  un_ReleaseURL :: string

record UpdateCache =
  uc_LastCheck :: time
  uc_UpdateAvailable :: bool
  uc_CurrentVersion :: string
  uc_LatestVersion :: string
  uc_IsPreRelease :: bool
  uc_ReleaseURL :: string
  uc_Dismissed :: bool

text \<open>The fields of \<^verbatim>\<open>Updater\<close> other than the client, which is part of \<open>env\<close>.\<close>

record Updater =
  owner :: string
  repo :: string
  cacheDir :: path
  checkInterval :: duration

text \<open>\<^verbatim>\<open>github.Release\<close> and its assets, as far as the updater reads them.\<close>

record Asset =
  Name :: string
  BrowserDownloadURL :: string

record Release =
  TagName :: string
  Body :: string
  Prerelease :: bool
  Assets :: "Asset list"

subsection \<open>The file system and the environment\<close>

record file_rec =
  content :: bytes
  mode :: nat

type_synonym filesystem = "path \<rightharpoonup> file_rec"

text \<open>The system calls the updater makes; \<open>io_fail\<close> of the environment says which of
  them the operating system refuses, and with which error.\<close>

datatype sysop =
    OpCreate path
  | OpOpen path
  | OpRemove path
  | OpRename path path
  | OpChmod path
  | OpStat path
  | OpCopy path path
  | OpCreateTemp string
  | OpSeek path
  | OpReadAll path
  | OpReadFile path
  | OpMkdirAll path
  | OpMarshal
  | OpWriteFile path
  | OpEvalSymlinks path

text \<open>What a run leaves behind besides files: the queries sent to the release source,
  the calls of \<^verbatim>\<open>verifyChecksum\<close>, and the lines printed.\<close>

datatype event =
    GetLatestReleaseCall
  | GetLatestPreReleaseCall string
  | DownloadAssetCall string
  | VerifyChecksumCall path string

datatype printed =
    PrintNewVersion
  | PrintCurrent string
  | PrintLatest string
  | PrintPreRelease
  | PrintReleaseURL string
  | PrintReleaseNotes string
  | PrintDownloading

record world =
  fs :: filesystem
  cache_file :: "UpdateCache option"
  events :: "event list"
  stdout :: "printed list"

text \<open>
  The collaborators. The type \<open>'v\<close> is \<^verbatim>\<open>*Version\<close>: the version package is not part
  of the sources at hand, so its four operations are parameters. \<open>cache_file\<close> of the
  world is the decoded content of \<^verbatim>\<open>update_cache.json\<close>, \<open>None\<close> when the file is
  missing or does not decode; JSON encoding is taken to lose nothing.
\<close>

record 'v env =
  ParseVersion :: "string \<Rightarrow> error + 'v"
  Version_IsNewerThan :: "'v \<Rightarrow> 'v \<Rightarrow> bool"
  Version_String :: "'v \<Rightarrow> string"
  Version_Prerelease :: "'v \<Rightarrow> string"
  GetLatestRelease :: "error + Release"
  GetLatestPreRelease :: "string \<Rightarrow> error + Release"
  GetReleaseURL :: "string \<Rightarrow> string"
  DownloadAsset :: "string \<Rightarrow> bytes \<times> error option"
  GOOS :: string
  GOARCH :: string
  Executable :: "error + path"
  TempDir :: path
  rand :: "string \<Rightarrow> nat"
  create_mode :: nat
  copy_partial :: nat
  io_fail :: "sysop \<Rightarrow> error option"
  sha256_hex :: "bytes \<Rightarrow> string"
  TrimSpace :: "string \<Rightarrow> string"
  now :: time

subsection \<open>Channel policy\<close>

definition determineChannel :: "'v env \<Rightarrow> 'v \<Rightarrow> string \<Rightarrow> string" where
  "determineChannel e currentVersion configChannel =
     (if configChannel \<noteq> [] \<and> configChannel \<noteq> ''stable'' then configChannel
      else if Version_Prerelease e currentVersion \<noteq> [] then
        (let parts = strings_Split (Version_Prerelease e currentVersion) (CHR ''.'') in
         if length parts > 0 then
           (let channel = hd parts in
            if channel = ''alpha'' \<or> channel = ''beta'' \<or> channel = ''rc'' then channel
            else [])
         else [])
      else [])"

text \<open>The policy in the words of the specification: the channel part of a pre-release
  label is what stands before its first dot.\<close>

definition label_channel :: "string \<Rightarrow> string" where
  "label_channel label = takeWhile (\<lambda>c. c \<noteq> CHR ''.'') label"

definition spec_DetermineChannel :: "string \<Rightarrow> string \<Rightarrow> string" where
  "spec_DetermineChannel label configuredChannel =
     (if configuredChannel \<noteq> [] \<and> configuredChannel \<noteq> ''stable'' then configuredChannel
      else if label_channel label \<in> {''alpha'', ''beta'', ''rc''} then label_channel label
      else [])"

subsection \<open>Throttling\<close>

definition maxDuration :: duration where
  "maxDuration = 2 ^ 63 - 1"

definition minDuration :: duration where
  "minDuration = - (2 ^ 63)"

text \<open>\<^verbatim>\<open>t.Sub(u)\<close> saturates at the ends of \<^verbatim>\<open>int64\<close>; \<^verbatim>\<open>time.Since(t)\<close> is
  \<^verbatim>\<open>time.Now().Sub(t)\<close>.\<close>

definition time_Sub :: "time \<Rightarrow> time \<Rightarrow> duration" where
  "time_Sub t u = (if t - u > maxDuration then maxDuration
                   else if t - u < minDuration then minDuration
                   else t - u)"

definition time_Since :: "'v env \<Rightarrow> time \<Rightarrow> duration" where
  "time_Since e t = time_Sub (now e) t"

definition shouldCheckForUpdate :: "'v env \<Rightarrow> Updater \<Rightarrow> UpdateCache option \<Rightarrow> bool" where
  "shouldCheckForUpdate e u cache =
     (case cache of
        None \<Rightarrow> True
      | Some c \<Rightarrow> time_Since e (uc_LastCheck c) > checkInterval u)"

subsection \<open>Operating system\<close>

text \<open>
  The file system maps a path to a file; links are not modelled, so two paths never
  name one file. Each call fails when \<open>io_fail\<close> says so, or for the reason the call
  itself has (a missing file). The kernel refuses to open the image of the running
  process for writing (\<^verbatim>\<open>ETXTBSY\<close>), so \<open>os_Create\<close> fails on the path that
  \<^verbatim>\<open>os.Executable\<close> reports; renaming onto that path is allowed.
\<close>

definition os_Create :: "'v env \<Rightarrow> path \<Rightarrow> filesystem \<Rightarrow> error + filesystem" where
  "os_Create e p files =
     (if Executable e = Inr p then Inl (External ''text file busy'')
      else (case io_fail e (OpCreate p) of
              Some err \<Rightarrow> Inl err
            | None \<Rightarrow>
                Inr (files(p \<mapsto> \<lparr>content = [],
                       mode = (case files p of Some f \<Rightarrow> mode f | None \<Rightarrow> create_mode e)\<rparr>))))"

definition os_Open :: "'v env \<Rightarrow> path \<Rightarrow> filesystem \<Rightarrow> error + file_rec" where
  "os_Open e p files =
     (case io_fail e (OpOpen p) of
        Some err \<Rightarrow> Inl err
      | None \<Rightarrow> (case files p of
                  None \<Rightarrow> Inl (External ''no such file or directory'')
                | Some f \<Rightarrow> Inr f))"

definition os_Stat :: "'v env \<Rightarrow> path \<Rightarrow> filesystem \<Rightarrow> error + file_rec" where
  "os_Stat e p files =
     (case io_fail e (OpStat p) of
        Some err \<Rightarrow> Inl err
      | None \<Rightarrow> (case files p of
                  None \<Rightarrow> Inl (External ''no such file or directory'')
                | Some f \<Rightarrow> Inr f))"

definition os_Remove :: "'v env \<Rightarrow> path \<Rightarrow> filesystem \<Rightarrow> error option \<times> filesystem" where
  "os_Remove e p files =
     (case io_fail e (OpRemove p) of
        Some err \<Rightarrow> (Some err, files)
      | None \<Rightarrow> (case files p of
                  None \<Rightarrow> (Some (External ''no such file or directory''), files)
                | Some f \<Rightarrow> (None, files(p := None))))"

definition os_Chmod :: "'v env \<Rightarrow> path \<Rightarrow> nat \<Rightarrow> filesystem \<Rightarrow> error option \<times> filesystem" where
  "os_Chmod e p m files =
     (case io_fail e (OpChmod p) of
        Some err \<Rightarrow> (Some err, files)
      | None \<Rightarrow> (case files p of
                  None \<Rightarrow> (Some (External ''no such file or directory''), files)
                | Some f \<Rightarrow> (None, files(p \<mapsto> f\<lparr>mode := m\<rparr>))))"

text \<open>A rename that fails leaves both paths as they were; one that succeeds moves the
  file onto the new path in one step.\<close>

definition os_Rename :: "'v env \<Rightarrow> path \<Rightarrow> path \<Rightarrow> filesystem \<Rightarrow> error option \<times> filesystem" where
  "os_Rename e oldpath newpath files =
     (case io_fail e (OpRename oldpath newpath) of
        Some err \<Rightarrow> (Some err, files)
      | None \<Rightarrow> (case files oldpath of
                  None \<Rightarrow> (Some (External ''no such file or directory''), files)
                | Some f \<Rightarrow> (None, (files(oldpath := None))(newpath \<mapsto> f))))"

text \<open>\<^verbatim>\<open>io.Copy(dst, src)\<close> on two open files. A copy that fails has written
  \<open>copy_partial\<close> bytes.\<close>

definition io_Copy :: "'v env \<Rightarrow> path \<Rightarrow> path \<Rightarrow> filesystem \<Rightarrow> error option \<times> filesystem" where
  "io_Copy e src dst files =
     (case (files src, files dst) of
        (Some s, Some d) \<Rightarrow>
          (case io_fail e (OpCopy src dst) of
             Some err \<Rightarrow> (Some err, files(dst \<mapsto> d\<lparr>content := take (copy_partial e) (content s)\<rparr>))
           | None \<Rightarrow> (None, files(dst \<mapsto> d\<lparr>content := content s\<rparr>)))
      | _ \<Rightarrow> (Some (External ''bad file descriptor''), files))"

text \<open>Decimal digits of a number, as \<^verbatim>\<open>strconv.Itoa\<close> writes them.\<close>

definition digit :: "nat \<Rightarrow> char" where
  "digit d = ''0123456789'' ! (d mod 10)"

function itoa :: "nat \<Rightarrow> string" where
  "itoa n = (if n < 10 then [digit n] else itoa (n div 10) @ [digit (n mod 10)])"
  by pat_completeness auto
termination
  by (relation "measure id") auto

declare itoa.simps [simp del]

text \<open>\<^verbatim>\<open>os.CreateTemp("", prefix + "*")\<close>: a new file in the temporary directory whose
  name is the prefix followed by a random number. The file is opened with
  \<^verbatim>\<open>O_EXCL\<close>, so a name that is taken is never reused; \<open>rand\<close> is the last number
  tried.\<close>

definition temp_name :: "'v env \<Rightarrow> string \<Rightarrow> path" where
  "temp_name e pre = TempDir e @ ''/'' @ pre @ itoa (rand e pre)"

definition os_CreateTemp :: "'v env \<Rightarrow> string \<Rightarrow> filesystem \<Rightarrow> error + (path \<times> filesystem)" where
  "os_CreateTemp e pre files =
     (case io_fail e (OpCreateTemp pre) of
        Some err \<Rightarrow> Inl err
      | None \<Rightarrow>
          (if files (temp_name e pre) \<noteq> None then Inl (External ''file exists'')
           else Inr (temp_name e pre, files(temp_name e pre \<mapsto> \<lparr>content = [], mode = 384\<rparr>))))"

text \<open>\<^verbatim>\<open>filepath.Dir\<close> and \<^verbatim>\<open>filepath.Join\<close> on a cleaned path, which is what
  \<^verbatim>\<open>filepath.EvalSymlinks\<close> returns. \<^verbatim>\<open>Join\<close> drops an empty first element; a
  directory that is not cleaned (a trailing or doubled separator, a dot element) is
  not normalised here as \<^verbatim>\<open>filepath.Clean\<close> would.\<close>

definition filepath_Dir :: "path \<Rightarrow> path" where
  "filepath_Dir p =
     (let upto = rev (dropWhile (\<lambda>c. c \<noteq> CHR ''/'') (rev p));
          dir = rev (dropWhile (\<lambda>c. c = CHR ''/'') (rev upto))
      in if upto = [] then ''.'' else if dir = [] then ''/'' else dir)"

definition filepath_Join :: "path \<Rightarrow> string \<Rightarrow> path" where
  "filepath_Join dir name =
     (if dir = [] \<or> dir = ''.'' then name
      else if dir = ''/'' then ''/'' @ name
      else dir @ ''/'' @ name)"

text \<open>Without links \<^verbatim>\<open>filepath.EvalSymlinks\<close> returns the path it is given, and fails
  when nothing is there.\<close>

definition filepath_EvalSymlinks :: "'v env \<Rightarrow> path \<Rightarrow> filesystem \<Rightarrow> error + path" where
  "filepath_EvalSymlinks e p files =
     (case io_fail e (OpEvalSymlinks p) of
        Some err \<Rightarrow> Inl err
      | None \<Rightarrow> (if files p = None then Inl (External ''no such file or directory'') else Inr p))"

text \<open>\<^verbatim>\<open>githubClient.DownloadAsset(url, file)\<close> writes what it received to the open
  file, also when it fails part of the way.\<close>

definition download_to :: "'v env \<Rightarrow> string \<Rightarrow> path \<Rightarrow> world \<Rightarrow> error option \<times> world" where
  "download_to e url p w =
     (let files = (case fs w p of
                     None \<Rightarrow> fs w
                   | Some f \<Rightarrow> (fs w)(p \<mapsto> f\<lparr>content := fst (DownloadAsset e url)\<rparr>))
      in (snd (DownloadAsset e url),
          w\<lparr>fs := files, events := events w @ [DownloadAssetCall url]\<rparr>))"

subsection \<open>Installer\<close>

definition checkWritePermission :: "'v env \<Rightarrow> path \<Rightarrow> filesystem \<Rightarrow> error option \<times> filesystem" where
  "checkWritePermission e p files =
     (let dir = filepath_Dir p;
          testFile = filepath_Join dir ''.tasklog_write_test''
      in case os_Create e testFile files of
           Inl err \<Rightarrow> (Some err, files)
         | Inr files1 \<Rightarrow> (None, snd (os_Remove e testFile files1)))"

definition copyFile :: "'v env \<Rightarrow> path \<Rightarrow> path \<Rightarrow> filesystem \<Rightarrow> error option \<times> filesystem" where
  "copyFile e src dst files =
     (case os_Open e src files of
        Inl err \<Rightarrow> (Some err, files)
      | Inr srcFile \<Rightarrow>
          (case os_Create e dst files of
             Inl err \<Rightarrow> (Some err, files)
           | Inr files1 \<Rightarrow>
               (case io_Copy e src dst files1 of
                  (Some err, files2) \<Rightarrow> (Some err, files2)
                | (None, files2) \<Rightarrow>
                    (case os_Stat e src files2 of
                       Inl err \<Rightarrow> (Some err, files2)
                     | Inr srcInfo \<Rightarrow> os_Chmod e dst (mode srcInfo) files2))))"

definition checksum_mismatch :: "string \<Rightarrow> string \<Rightarrow> error" where
  "checksum_mismatch expectedChecksum actualChecksum =
     Errorf (''checksum mismatch: expected '' @ expectedChecksum @ '', got '' @ actualChecksum)"

text \<open>\<^verbatim>\<open>verifyChecksum\<close> after its temporary file exists; the caller below runs the
  deferred removal of that file.\<close>

definition verifyChecksum_body ::
  "'v env \<Rightarrow> path \<Rightarrow> string \<Rightarrow> path \<Rightarrow> world \<Rightarrow> error option \<times> world" where
  "verifyChecksum_body e filePath checksumURL tmp w =
     (case download_to e checksumURL tmp w of
        (Some err, w1) \<Rightarrow> (Some (Wrap ''failed to download checksum'' err []), w1)
      | (None, w1) \<Rightarrow>
          (case io_fail e (OpSeek tmp) of
             Some err \<Rightarrow> (Some (Wrap ''failed to seek checksum file'' err []), w1)
           | None \<Rightarrow>
               (case io_fail e (OpReadAll tmp) of
                  Some err \<Rightarrow> (Some (Wrap ''failed to read checksum'' err []), w1)
                | None \<Rightarrow>
                    (let checksumData = (case fs w1 tmp of Some f \<Rightarrow> content f | None \<Rightarrow> []);
                         expectedChecksum = TrimSpace e checksumData
                     in case os_Open e filePath (fs w1) of
                          Inl err \<Rightarrow> (Some err, w1)
                        | Inr f \<Rightarrow>
                            (case io_fail e (OpReadAll filePath) of
                               Some err \<Rightarrow> (Some err, w1)
                             | None \<Rightarrow>
                                 (let actualChecksum = sha256_hex e (content f)
                                  in if actualChecksum \<noteq> expectedChecksum
                                     then (Some (checksum_mismatch expectedChecksum actualChecksum), w1)
                                     else (None, w1)))))))"

definition verifyChecksum :: "'v env \<Rightarrow> path \<Rightarrow> string \<Rightarrow> world \<Rightarrow> error option \<times> world" where
  "verifyChecksum e filePath checksumURL w0 =
     (let w = w0\<lparr>events := events w0 @ [VerifyChecksumCall filePath checksumURL]\<rparr>
      in case os_CreateTemp e ''tasklog-checksum-'' (fs w) of
           Inl err \<Rightarrow> (Some (Wrap ''failed to create temp file for checksum'' err []), w)
         | Inr (tmp, files1) \<Rightarrow>
             (case verifyChecksum_body e filePath checksumURL tmp (w\<lparr>fs := files1\<rparr>) of
                (r, w2) \<Rightarrow> (r, w2\<lparr>fs := snd (os_Remove e tmp (fs w2))\<rparr>)))"

text \<open>\<^verbatim>\<open>downloadAndReplace\<close> from the download on; the caller below runs the deferred
  removal of the temporary file.\<close>

definition downloadAndReplace_body ::
  "'v env \<Rightarrow> path \<Rightarrow> path \<Rightarrow> string \<Rightarrow> string \<Rightarrow> world \<Rightarrow> (path \<times> error option) \<times> world" where
  "downloadAndReplace_body e binaryPath tmpPath downloadURL checksumURL w =
     (case download_to e downloadURL tmpPath w of
        (Some err, w1) \<Rightarrow> (([], Some (Wrap ''failed to download binary'' err [])), w1)
      | (None, w1) \<Rightarrow>
          (case (if checksumURL \<noteq> [] then verifyChecksum e tmpPath checksumURL w1 else (None, w1)) of
             (Some err, w2) \<Rightarrow> (([], Some (Wrap ''checksum verification failed'' err [])), w2)
           | (None, w2) \<Rightarrow>
               (case os_Chmod e tmpPath 493 (fs w2) of
                  (Some err, files3) \<Rightarrow>
                    (([], Some (Wrap ''failed to make binary executable'' err [])), w2\<lparr>fs := files3\<rparr>)
                | (None, files3) \<Rightarrow>
                    (let backupPath = binaryPath @ ''.backup''
                     in case copyFile e binaryPath backupPath files3 of
                          (Some err, files4) \<Rightarrow>
                            (([], Some (Wrap ''failed to create backup'' err [])), w2\<lparr>fs := files4\<rparr>)
                        | (None, files4) \<Rightarrow>
                            (case os_Rename e tmpPath binaryPath files4 of
                               (Some err, files5) \<Rightarrow>
                                 ((backupPath, Some (Wrap ''failed to replace binary'' err [])),
                                  w2\<lparr>fs := files5\<rparr>)
                             | (None, files5) \<Rightarrow> ((backupPath, None), w2\<lparr>fs := files5\<rparr>))))))"

definition downloadAndReplace ::
  "'v env \<Rightarrow> string \<Rightarrow> string \<Rightarrow> world \<Rightarrow> (path \<times> error option) \<times> world" where
  "downloadAndReplace e downloadURL checksumURL w =
     (case Executable e of
        Inl err \<Rightarrow> (([], Some (Wrap ''failed to get current binary path'' err [])), w)
      | Inr exe \<Rightarrow>
          (case filepath_EvalSymlinks e exe (fs w) of
             Inl err \<Rightarrow> (([], Some (Wrap ''failed to resolve binary path'' err [])), w)
           | Inr binaryPath \<Rightarrow>
               (case checkWritePermission e binaryPath (fs w) of
                  (Some err, files1) \<Rightarrow>
                    (([], Some (Wrap ''insufficient permissions to update binary'' err
                                 (CHR 0x0A # ''Try running with sudo or install to a user-writable location''))),
                     w\<lparr>fs := files1\<rparr>)
                | (None, files1) \<Rightarrow>
                    (case os_CreateTemp e ''tasklog-update-'' files1 of
                       Inl err \<Rightarrow>
                         (([], Some (Wrap ''failed to create temp file'' err [])), w\<lparr>fs := files1\<rparr>)
                     | Inr (tmpPath, files2) \<Rightarrow>
                         (case downloadAndReplace_body e binaryPath tmpPath downloadURL checksumURL
                                 (w\<lparr>fs := files2\<rparr>) of
                            (r, w3) \<Rightarrow> (r, w3\<lparr>fs := snd (os_Remove e tmpPath (fs w3))\<rparr>))))))"

text \<open>
  The replacement step of \<^verbatim>\<open>downloadAndReplace\<close> is its call
  \<^verbatim>\<open>os.Rename(tmpPath, binaryPath)\<close>. \<open>replacementStep\<close> runs the function up to that
  call and gives the path of the executable, the temporary path and the world in which
  the rename is called; it is \<open>None\<close> when the function returns before.
\<close>

definition replacementStep ::
  "'v env \<Rightarrow> string \<Rightarrow> string \<Rightarrow> world \<Rightarrow> (path \<times> path \<times> world) option" where
  "replacementStep e downloadURL checksumURL w =
     (case Executable e of
        Inl err \<Rightarrow> None
      | Inr exe \<Rightarrow>
          (case filepath_EvalSymlinks e exe (fs w) of
             Inl err \<Rightarrow> None
           | Inr binaryPath \<Rightarrow>
               (case checkWritePermission e binaryPath (fs w) of
                  (Some err, files1) \<Rightarrow> None
                | (None, files1) \<Rightarrow>
                    (case os_CreateTemp e ''tasklog-update-'' files1 of
                       Inl err \<Rightarrow> None
                     | Inr (tmpPath, files2) \<Rightarrow>
                         (case download_to e downloadURL tmpPath (w\<lparr>fs := files2\<rparr>) of
                            (Some err, w1) \<Rightarrow> None
                          | (None, w1) \<Rightarrow>
                              (case (if checksumURL \<noteq> [] then verifyChecksum e tmpPath checksumURL w1
                                     else (None, w1)) of
                                 (Some err, w2) \<Rightarrow> None
                               | (None, w2) \<Rightarrow>
                                   (case os_Chmod e tmpPath 493 (fs w2) of
                                      (Some err, files3) \<Rightarrow> None
                                    | (None, files3) \<Rightarrow>
                                        (case copyFile e binaryPath (binaryPath @ ''.backup'') files3 of
                                           (Some err, files4) \<Rightarrow> None
                                         | (None, files4) \<Rightarrow>
                                             Some (binaryPath, tmpPath, w2\<lparr>fs := files4\<rparr>)))))))))"

subsection \<open>Cache\<close>

definition getCacheFilePath :: "Updater \<Rightarrow> path" where
  "getCacheFilePath u = filepath_Join (cacheDir u) ''update_cache.json''"

text \<open>A file that cannot be read, or does not decode, is no cache.\<close>

definition getCachedUpdate :: "'v env \<Rightarrow> Updater \<Rightarrow> world \<Rightarrow> UpdateCache option" where
  "getCachedUpdate e u w =
     (case io_fail e (OpReadFile (getCacheFilePath u)) of
        Some err \<Rightarrow> None
      | None \<Rightarrow> cache_file w)"

text \<open>Every failure is logged and dropped. \<^verbatim>\<open>os.WriteFile\<close> opens the file, truncating
  it, and then writes: when the open fails the old file stays, when the write fails
  what is left does not decode.\<close>

definition saveUpdateCache :: "'v env \<Rightarrow> Updater \<Rightarrow> UpdateCache \<Rightarrow> world \<Rightarrow> world" where
  "saveUpdateCache e u cache w =
     (case io_fail e (OpMkdirAll (cacheDir u)) of
        Some err \<Rightarrow> w
      | None \<Rightarrow>
          (case io_fail e OpMarshal of
             Some err \<Rightarrow> w
           | None \<Rightarrow>
               (case io_fail e (OpCreate (getCacheFilePath u)) of
                  Some err \<Rightarrow> w
                | None \<Rightarrow>
                    (case io_fail e (OpWriteFile (getCacheFilePath u)) of
                       Some err \<Rightarrow> w\<lparr>cache_file := None\<rparr>
                     | None \<Rightarrow> w\<lparr>cache_file := Some cache\<rparr>))))"

subsection \<open>Asset resolution\<close>

definition getAssetNameForPlatform :: "'v env \<Rightarrow> string" where
  "getAssetNameForPlatform e =
     (let goos = GOOS e;
          goarch = GOARCH e;
          arch = (if goarch = ''amd64'' then ''x86_64''
                  else if goarch = ''386'' then ''i386''
                  else goarch)
      in goos @ ''_'' @ arch)"

text \<open>The loop over \<^verbatim>\<open>release.Assets\<close> of \<^verbatim>\<open>GetUpdateInfo\<close>: the pair
  \<^verbatim>\<open>(downloadURL, actualAssetName)\<close> when the loop ends.\<close>

fun findAsset :: "Asset list \<Rightarrow> string \<Rightarrow> string \<times> string" where
  "findAsset [] assetName = ([], [])"
| "findAsset (asset # rest) assetName =
     (if strings_Contains (Name asset) assetName
      then (BrowserDownloadURL asset, Name asset)
      else findAsset rest assetName)"

subsection \<open>Updater\<close>

text \<open>The query both read operations send: the latest stable release for the empty
  channel, the latest pre-release of the channel otherwise.\<close>

definition fetchRelease :: "'v env \<Rightarrow> string \<Rightarrow> world \<Rightarrow> (error + Release) \<times> world" where
  "fetchRelease e effectiveChannel w =
     (if effectiveChannel = []
      then (GetLatestRelease e, w\<lparr>events := events w @ [GetLatestReleaseCall]\<rparr>)
      else (GetLatestPreRelease e effectiveChannel,
            w\<lparr>events := events w @ [GetLatestPreReleaseCall effectiveChannel]\<rparr>))"

definition CheckForUpdate ::
  "'v env \<Rightarrow> Updater \<Rightarrow> string \<Rightarrow> string \<Rightarrow> world \<Rightarrow> (error + UpdateNotification) \<times> world" where
  "CheckForUpdate e u currentVersion channel w =
     (let cache = getCachedUpdate e u w in
      if cache \<noteq> None \<and> \<not> shouldCheckForUpdate e u cache then
        (Inr \<lparr>un_Available = uc_UpdateAvailable (the cache),
              un_CurrentVersion = uc_CurrentVersion (the cache),
              un_LatestVersion = uc_LatestVersion (the cache),
              un_IsPreRelease = uc_IsPreRelease (the cache),
              un_ReleaseURL = uc_ReleaseURL (the cache)\<rparr>, w)
      else
        (case ParseVersion e currentVersion of
           Inl err \<Rightarrow>
             (Inr \<lparr>un_Available = False, un_CurrentVersion = [], un_LatestVersion = [],
                   un_IsPreRelease = False, un_ReleaseURL = []\<rparr>, w)
         | Inr current \<Rightarrow>
             (let effectiveChannel = determineChannel e current channel in
              case fetchRelease e effectiveChannel w of
                (Inl err, w1) \<Rightarrow> (Inl (Wrap ''failed to fetch latest release'' err []), w1)
              | (Inr release, w1) \<Rightarrow>
                  (case ParseVersion e (TagName release) of
                     Inl err \<Rightarrow>
                       (Inl (Wrap (''failed to parse latest version '' @ TagName release) err []), w1)
                   | Inr latest \<Rightarrow>
                       (if \<not> Version_IsNewerThan e latest current then
                          (Inr \<lparr>un_Available = False,
                                un_CurrentVersion = Version_String e current,
                                un_LatestVersion = Version_String e latest,
                                un_IsPreRelease = False, un_ReleaseURL = []\<rparr>,
                           saveUpdateCache e u
                             \<lparr>uc_LastCheck = now e, uc_UpdateAvailable = False,
                              uc_CurrentVersion = Version_String e current,
                              uc_LatestVersion = Version_String e latest,
                              uc_IsPreRelease = False, uc_ReleaseURL = [],
                              uc_Dismissed = False\<rparr> w1)
                        else
                          (Inr \<lparr>un_Available = True,
                                un_CurrentVersion = Version_String e current,
                                un_LatestVersion = Version_String e latest,
                                un_IsPreRelease = Prerelease release,
                                un_ReleaseURL = GetReleaseURL e (TagName release)\<rparr>,
                           saveUpdateCache e u
                             \<lparr>uc_LastCheck = now e, uc_UpdateAvailable = True,
                              uc_CurrentVersion = Version_String e current,
                              uc_LatestVersion = Version_String e latest,
                              uc_IsPreRelease = Prerelease release,
                              uc_ReleaseURL = GetReleaseURL e (TagName release),
                              uc_Dismissed = False\<rparr> w1))))))"

text \<open>\<open>Inr None\<close> is the pair \<^verbatim>\<open>(nil, nil)\<close>: nothing to install, and no error.\<close>

definition GetUpdateInfo ::
  "'v env \<Rightarrow> Updater \<Rightarrow> string \<Rightarrow> string \<Rightarrow> world \<Rightarrow> (error + UpdateInfo option) \<times> world" where
  "GetUpdateInfo e u currentVersion channel w =
     (case ParseVersion e currentVersion of
        Inl err \<Rightarrow> (Inr None, w)
      | Inr current \<Rightarrow>
          (let effectiveChannel = determineChannel e current channel in
           case fetchRelease e effectiveChannel w of
             (Inl err, w1) \<Rightarrow> (Inl (Wrap ''failed to fetch latest release'' err []), w1)
           | (Inr release, w1) \<Rightarrow>
               (case ParseVersion e (TagName release) of
                  Inl err \<Rightarrow>
                    (Inl (Wrap (''failed to parse latest version '' @ TagName release) err []), w1)
                | Inr latest \<Rightarrow>
                    (if \<not> Version_IsNewerThan e latest current then (Inr None, w1)
                     else
                       (let assetName = getAssetNameForPlatform e;
                            (downloadURL, actualAssetName) = findAsset (Assets release) assetName
                        in if downloadURL = [] then
                             (Inl (Errorf (''no binary found for platform '' @ GOOS e @ ''/'' @ GOARCH e)),
                              w1)
                           else
                             (Inr (Some \<lparr>ui_CurrentVersion = Version_String e current,
                                         ui_LatestVersion = Version_String e latest,
                                         ui_ReleaseURL = GetReleaseURL e (TagName release),
                                         ui_ReleaseNotes = Body release,
                                         ui_DownloadURL = downloadURL,
                                         ui_AssetName = actualAssetName,
                                         ui_IsPreRelease = Prerelease release\<rparr>),
                              saveUpdateCache e u
                                \<lparr>uc_LastCheck = now e, uc_UpdateAvailable = True,
                                 uc_CurrentVersion = Version_String e current,
                                 uc_LatestVersion = Version_String e latest,
                                 uc_IsPreRelease = Prerelease release,
                                 uc_ReleaseURL = GetReleaseURL e (TagName release),
                                 uc_Dismissed = False\<rparr> w1))))))"

text \<open>What \<^verbatim>\<open>PerformUpgrade\<close> prints before it asks.\<close>

definition upgradeSummary :: "UpdateInfo \<Rightarrow> printed list" where
  "upgradeSummary updateInfo =
     [PrintNewVersion, PrintCurrent (ui_CurrentVersion updateInfo),
      PrintLatest (ui_LatestVersion updateInfo)]
     @ (if ui_IsPreRelease updateInfo then [PrintPreRelease] else [])
     @ [PrintReleaseURL (ui_ReleaseURL updateInfo)]
     @ (if ui_ReleaseNotes updateInfo \<noteq> [] then [PrintReleaseNotes (ui_ReleaseNotes updateInfo)]
        else [])"

definition PerformUpgrade ::
  "'v env \<Rightarrow> UpdateInfo \<Rightarrow> (string \<Rightarrow> bool) \<Rightarrow> world \<Rightarrow> (path \<times> error option) \<times> world" where
  "PerformUpgrade e updateInfo confirm w0 =
     (let w = w0\<lparr>stdout := stdout w0 @ upgradeSummary updateInfo\<rparr> in
      if \<not> confirm ''Do you want to upgrade now?'' then
        (([], Some (Errorf ''upgrade cancelled by user'')), w)
      else
        (case downloadAndReplace e (ui_DownloadURL updateInfo) []
                (w\<lparr>stdout := stdout w @ [PrintDownloading]\<rparr>) of
           ((backupPath, Some err), w1) \<Rightarrow> ((backupPath, Some err), w1)
         | ((backupPath, None), w1) \<Rightarrow> ((backupPath, None), w1)))"

subsection \<open>An example run\<close>

text \<open>
  A concrete environment on which the functions above can be evaluated. Its version
  operations cover the few version strings the examples use: a version is its three
  numbers and its pre-release label, \<^verbatim>\<open>dev\<close> does not parse. The release is the one of
  \<^verbatim>\<open>TestGetUpdateInfo_AssetSelection\<close> on a linux/arm64 host: the archive is listed
  before the bare binary.
\<close>

type_synonym example_version = "nat \<times> nat \<times> nat \<times> string"

definition example_ParseVersion :: "string \<Rightarrow> error + example_version" where
  "example_ParseVersion s =
     (if s = ''1.0.0'' \<or> s = ''v1.0.0'' then Inr (1, 0, 0, [])
      else if s = ''1.1.0'' \<or> s = ''v1.1.0'' then Inr (1, 1, 0, [])
      else if s = ''1.0.0-alpha.1'' then Inr (1, 0, 0, ''alpha.1'')
      else if s = ''1.0.0-dev'' then Inr (1, 0, 0, ''dev'')
      else Inl (External ''invalid version format''))"

fun example_IsNewerThan :: "example_version \<Rightarrow> example_version \<Rightarrow> bool" where
  "example_IsNewerThan (a1, a2, a3, al) (b1, b2, b3, bl) =
     (a1 > b1 \<or> (a1 = b1 \<and> (a2 > b2 \<or> (a2 = b2 \<and> (a3 > b3 \<or> (a3 = b3 \<and> al = [] \<and> bl \<noteq> []))))))"

fun example_String :: "example_version \<Rightarrow> string" where
  "example_String (a1, a2, a3, al) =
     itoa a1 @ ''.'' @ itoa a2 @ ''.'' @ itoa a3 @ (if al = [] then [] else ''-'' @ al)"

definition example_release :: Release where
  "example_release =
     \<lparr>TagName = ''v1.1.0'', Body = ''Test release'', Prerelease = False,
      Assets = [\<lparr>Name = ''tasklog_1.1.0_linux_arm64.tar.gz'',
                 BrowserDownloadURL = ''https://example.com/download.tar.gz''\<rparr>,
                \<lparr>Name = ''tasklog_1.1.0_linux_arm64'',
                 BrowserDownloadURL = ''https://example.com/download-binary''\<rparr>]\<rparr>"

definition example_DownloadAsset :: "string \<Rightarrow> bytes \<times> error option" where
  "example_DownloadAsset url =
     (if url = ''https://example.com/download-binary'' then (''new binary'', None)
      else if url = ''https://example.com/checksum'' then
        (''9f14fce4d07a391b0ee54c7341931afaa9e391a4838a57e23d97a76b92c06f2a'', None)
      else ([], Some (External ''unexpected status code: 404'')))"

definition example_sha256_hex :: "bytes \<Rightarrow> string" where
  "example_sha256_hex b =
     (if b = ''new binary'' then ''2f17c9ffb972a6c5da72c2b3df01f7e2ccf52dad2c0059dac631232a15126d2e''
      else if b = ''old binary'' then ''9f14fce4d07a391b0ee54c7341931afaa9e391a4838a57e23d97a76b92c06f2a''
      else ''e3b0c44298fc1c149afbf4c8996fb92427ae41e4649b934ca495991b7852b855'')"

text \<open>\<^verbatim>\<open>strings.TrimSpace\<close> for the example: it strips the six ASCII white-space bytes,
  which is all the white space the example's checksum text could carry; the Unicode
  white space that \<^verbatim>\<open>strings.TrimSpace\<close> strips as well (\<^verbatim>\<open>U+0085\<close>,
  \<^verbatim>\<open>U+00A0\<close> and others) is left alone. The theorems take \<open>TrimSpace\<close> as a parameter
  and do not depend on this function.\<close>

definition example_TrimSpace :: "string \<Rightarrow> string" where
  "example_TrimSpace s =
     rev (dropWhile (\<lambda>c. c \<in> set [CHR 0x09, CHR 0x0A, CHR 0x0B, CHR 0x0C, CHR 0x0D, CHR '' ''])
       (rev (dropWhile (\<lambda>c. c \<in> set [CHR 0x09, CHR 0x0A, CHR 0x0B, CHR 0x0C, CHR 0x0D, CHR '' '']) s)))"

definition hour :: duration where
  "hour = 3600 * 1000000000"

definition example_env :: "example_version env" where
  "example_env =
     \<lparr>ParseVersion = example_ParseVersion,
      Version_IsNewerThan = example_IsNewerThan,
      Version_String = example_String,
      Version_Prerelease = (\<lambda>v. snd (snd (snd v))),
      GetLatestRelease = Inr example_release,
      GetLatestPreRelease = (\<lambda>channel. Inl (External ''no pre-release found'')),
      GetReleaseURL = (\<lambda>tag. ''https://github.com/Binsabbar/tasklog/releases/tag/'' @ tag),
      DownloadAsset = example_DownloadAsset,
      GOOS = ''linux'',
      GOARCH = ''arm64'',
      Executable = Inr ''/opt/tasklog'',
      TempDir = ''/tmp'',
      rand = (\<lambda>pre. 42),
      create_mode = 420,
      copy_partial = 0,
      io_fail = (\<lambda>c. None),
      sha256_hex = example_sha256_hex,
      TrimSpace = example_TrimSpace,
      now = 1000 * hour\<rparr>"

text \<open>The same environment on a file system that refuses the final rename.\<close>

definition example_env_rename_fails :: "example_version env" where
  "example_env_rename_fails =
     example_env\<lparr>io_fail := (\<lambda>c. if c = OpRename ''/tmp/tasklog-update-42'' ''/opt/tasklog''
                                    then Some (External ''invalid cross-device link'') else None)\<rparr>"

definition example_updater :: Updater where
  "example_updater =
     \<lparr>owner = ''Binsabbar'', repo = ''tasklog'', cacheDir = ''/home/u/.cache/tasklog'',
      checkInterval = 24 * hour\<rparr>"

definition example_world :: world where
  "example_world =
     \<lparr>fs = [''/opt/tasklog'' \<mapsto> \<lparr>content = ''old binary'', mode = 493\<rparr>],
      cache_file = None, events = [], stdout = []\<rparr>"

definition example_cache :: "time \<Rightarrow> UpdateCache" where
  "example_cache t =
     \<lparr>uc_LastCheck = t, uc_UpdateAvailable = True, uc_CurrentVersion = ''1.0.0'',
      uc_LatestVersion = ''1.1.0'', uc_IsPreRelease = False,
      uc_ReleaseURL = ''https://github.com/Binsabbar/tasklog/releases/tag/v1.1.0'',
      uc_Dismissed = False\<rparr>"

definition example_info :: UpdateInfo where
  "example_info =
     \<lparr>ui_CurrentVersion = ''1.0.0'', ui_LatestVersion = ''1.1.0'',
      ui_ReleaseURL = ''https://github.com/Binsabbar/tasklog/releases/tag/v1.1.0'',
      ui_ReleaseNotes = ''Test release'',
      ui_DownloadURL = ''https://example.com/download-binary'',
      ui_AssetName = ''tasklog_1.1.0_linux_arm64'', ui_IsPreRelease = False\<rparr>"

text \<open>The world after the first check of the example: one query sent, its outcome
  cached.\<close>

definition example_checked :: world where
  "example_checked =
     example_world\<lparr>cache_file := Some (example_cache (1000 * hour)), events := [GetLatestReleaseCall]\<rparr>"

subsection \<open>Notions of the specification\<close>

text \<open>The projection of a cache entry that \<^verbatim>\<open>CheckForUpdate\<close> returns.\<close>

definition cachedNotification :: "UpdateCache \<Rightarrow> UpdateNotification" where
  "cachedNotification c =
     \<lparr>un_Available = uc_UpdateAvailable c, un_CurrentVersion = uc_CurrentVersion c,
      un_LatestVersion = uc_LatestVersion c, un_IsPreRelease = uc_IsPreRelease c,
      un_ReleaseURL = uc_ReleaseURL c\<rparr>"

text \<open>The cache file can be written and read back: none of the calls of
  \<^verbatim>\<open>saveUpdateCache\<close> and \<^verbatim>\<open>getCachedUpdate\<close> is refused.\<close>

definition cache_io_ok :: "'v env \<Rightarrow> Updater \<Rightarrow> bool" where
  "cache_io_ok e u =
     (io_fail e (OpMkdirAll (cacheDir u)) = None \<and> io_fail e OpMarshal = None \<and>
      io_fail e (OpCreate (getCacheFilePath u)) = None \<and>
      io_fail e (OpWriteFile (getCacheFilePath u)) = None \<and>
      io_fail e (OpReadFile (getCacheFilePath u)) = None)"

text \<open>Nothing but the comparison of the digests fails in a run of
  \<^verbatim>\<open>downloadAndReplace\<close>: no system call is refused, both downloads succeed, the
  executable exists and is not itself the file the permission probe creates, and the two
  temporary names are free.\<close>

definition no_other_failure :: "'v env \<Rightarrow> string \<Rightarrow> string \<Rightarrow> world \<Rightarrow> bool" where
  "no_other_failure e downloadURL checksumURL w =
     ((\<forall>c. io_fail e c = None) \<and>
      snd (DownloadAsset e downloadURL) = None \<and> snd (DownloadAsset e checksumURL) = None \<and>
      (case Executable e of
         Inl err \<Rightarrow> False
       | Inr p \<Rightarrow> fs w p \<noteq> None \<and> filepath_Join (filepath_Dir p) ''.tasklog_write_test'' \<noteq> p) \<and>
      fs w (temp_name e ''tasklog-update-'') = None \<and>
      fs w (temp_name e ''tasklog-checksum-'') = None)"

section \<open>Properties\<close>

lemma strings_Split_nonempty: "strings_Split s sep \<noteq> []"
  by (induction s) (auto split: list.splits)

lemma hd_strings_Split: "hd (strings_Split s sep) = takeWhile (\<lambda>c. c \<noteq> sep) s"
  by (induction s) (auto split: list.splits simp: strings_Split_nonempty)

subsection \<open>Throttling\<close>

lemma time_Sub_exact:
  "minDuration \<le> t - u \<Longrightarrow> t - u \<le> maxDuration \<Longrightarrow> time_Sub t u = t - u"
  by (simp add: time_Sub_def)

text \<open>
  Claim C6. \<^verbatim>\<open>shouldCheckForUpdate\<close> answers yes when there is no cache. For a cache
  entry, whose age is \<^verbatim>\<open>time.Since(cache.LastCheck)\<close>, it answers no when the age
  equals the check interval and yes when the age is greater than the interval.
\<close>

theorem shouldCheckForUpdate_boundary:
  "shouldCheckForUpdate e u None \<and>
   (\<forall>c. time_Since e (uc_LastCheck c) = checkInterval u \<longrightarrow> \<not> shouldCheckForUpdate e u (Some c)) \<and>
   (\<forall>c. time_Since e (uc_LastCheck c) > checkInterval u \<longrightarrow> shouldCheckForUpdate e u (Some c))"
  by (simp add: shouldCheckForUpdate_def)

theorem shouldCheckForUpdate_boundary_witness:
  "time_Since (example_env\<lparr>now := 1024 * hour\<rparr>) (uc_LastCheck (example_cache (1000 * hour)))
     = checkInterval example_updater \<and>
   \<not> shouldCheckForUpdate (example_env\<lparr>now := 1024 * hour\<rparr>) example_updater
       (Some (example_cache (1000 * hour))) \<and>
   time_Since (example_env\<lparr>now := 1025 * hour\<rparr>) (uc_LastCheck (example_cache (1000 * hour)))
     > checkInterval example_updater \<and>
   shouldCheckForUpdate (example_env\<lparr>now := 1025 * hour\<rparr>) example_updater
       (Some (example_cache (1000 * hour))) \<and>
   \<not> shouldCheckForUpdate (example_env\<lparr>now := 1023 * hour\<rparr>) example_updater
       (Some (example_cache (1000 * hour))) \<and>
   shouldCheckForUpdate example_env example_updater None"
proof -
  have a: "time_Since (example_env\<lparr>now := 1024 * hour\<rparr>) (uc_LastCheck (example_cache (1000 * hour)))
     = checkInterval example_updater"
    by (simp add: time_Since_def time_Sub_def example_env_def example_cache_def
        example_updater_def hour_def maxDuration_def minDuration_def)
  have b: "time_Since (example_env\<lparr>now := 1025 * hour\<rparr>) (uc_LastCheck (example_cache (1000 * hour)))
     > checkInterval example_updater"
    by (simp add: time_Since_def time_Sub_def example_env_def example_cache_def
        example_updater_def hour_def maxDuration_def minDuration_def)
  have c: "\<not> shouldCheckForUpdate (example_env\<lparr>now := 1023 * hour\<rparr>) example_updater
       (Some (example_cache (1000 * hour)))"
    by (simp add: shouldCheckForUpdate_def time_Since_def time_Sub_def example_env_def example_cache_def
        example_updater_def hour_def maxDuration_def minDuration_def)
  from a b c
    shouldCheckForUpdate_boundary [of "example_env\<lparr>now := 1024 * hour\<rparr>" example_updater]
    shouldCheckForUpdate_boundary [of "example_env\<lparr>now := 1025 * hour\<rparr>" example_updater]
    shouldCheckForUpdate_boundary [of example_env example_updater]
  show ?thesis by blast
qed

subsection \<open>Channel policy\<close>

text \<open>
  Claim C7. \<^verbatim>\<open>determineChannel\<close> has no failing branch and computes the policy of the
  specification: a configured channel other than the empty one and \<^verbatim>\<open>stable\<close> is returned
  as it is; otherwise the channel part of the current version's pre-release label when
  that is alpha, beta or rc; otherwise the empty string.
\<close>

theorem determineChannel_policy:
  "determineChannel e currentVersion configChannel =
     spec_DetermineChannel (Version_Prerelease e currentVersion) configChannel"
  by (auto simp: determineChannel_def spec_DetermineChannel_def label_channel_def Let_def
      hd_strings_Split strings_Split_nonempty)

theorem determineChannel_policy_witness:
  "determineChannel example_env (1, 0, 0, []) [] = [] \<and>
   determineChannel example_env (1, 0, 0, []) ''stable'' = [] \<and>
   determineChannel example_env (1, 0, 0, ''alpha.1'') [] = ''alpha'' \<and>
   determineChannel example_env (1, 0, 0, ''alpha.1'') ''beta'' = ''beta'' \<and>
   determineChannel example_env (1, 0, 0, []) ''alpha'' = ''alpha'' \<and>
   determineChannel example_env (1, 0, 0, ''dev'') [] = []"
  using determineChannel_policy [of example_env "(1, 0, 0, [])" "[]"]
    determineChannel_policy [of example_env "(1, 0, 0, [])" "''stable''"]
    determineChannel_policy [of example_env "(1, 0, 0, ''alpha.1'')" "[]"]
    determineChannel_policy [of example_env "(1, 0, 0, ''alpha.1'')" "''beta''"]
    determineChannel_policy [of example_env "(1, 0, 0, [])" "''alpha''"]
    determineChannel_policy [of example_env "(1, 0, 0, ''dev'')" "[]"]
  by (simp add: spec_DetermineChannel_def label_channel_def example_env_def)

subsection \<open>Asset resolution\<close>

text \<open>The loop returns the first asset whose name contains the hint, whatever follows
  it in the list.\<close>

lemma findAsset_first_match:
  assumes "\<forall>a \<in> set skipped. \<not> strings_Contains (Name a) assetName"
    and "strings_Contains (Name asset) assetName"
  shows "findAsset (skipped @ asset # rest) assetName = (BrowserDownloadURL asset, Name asset)"
  using assms by (induction skipped) auto

text \<open>
  Claim C1 says that of an archive and a bare binary for the same platform the bare
  binary is chosen whatever their order. The release of
  \<^verbatim>\<open>TestGetUpdateInfo_AssetSelection\<close> lists the archive first, and
  \<^verbatim>\<open>GetUpdateInfo\<close> returns the archive: the loop stops at the first name that contains
  the platform hint.
\<close>

theorem GetUpdateInfo_selects_first_match:
  "fst (GetUpdateInfo example_env example_updater ''v1.0.0'' [] example_world) =
     Inr (Some \<lparr>ui_CurrentVersion = ''1.0.0'', ui_LatestVersion = ''1.1.0'',
                ui_ReleaseURL = ''https://github.com/Binsabbar/tasklog/releases/tag/v1.1.0'',
                ui_ReleaseNotes = ''Test release'',
                ui_DownloadURL = ''https://example.com/download.tar.gz'',
                ui_AssetName = ''tasklog_1.1.0_linux_arm64.tar.gz'',
                ui_IsPreRelease = False\<rparr>)"
  by (simp add: GetUpdateInfo_def example_env_def example_ParseVersion_def determineChannel_def
      fetchRelease_def example_release_def getAssetNameForPlatform_def Let_def digit_def itoa.simps)

subsection \<open>Checking for an update\<close>

lemma saveUpdateCache_frame:
  "fs (saveUpdateCache e u c w) = fs w \<and> events (saveUpdateCache e u c w) = events w \<and>
   stdout (saveUpdateCache e u c w) = stdout w"
  by (simp add: saveUpdateCache_def split: option.splits)

lemma fetchRelease_result: "fst (fetchRelease e ch w) = fst (fetchRelease e ch w')"
  by (simp add: fetchRelease_def)

lemma fetchRelease_frame:
  "fs (snd (fetchRelease e ch w)) = fs w \<and> cache_file (snd (fetchRelease e ch w)) = cache_file w \<and>
   stdout (snd (fetchRelease e ch w)) = stdout w"
  by (simp add: fetchRelease_def)

lemma CheckForUpdate_fresh:
  assumes "getCachedUpdate e u w = Some c" and "time_Since e (uc_LastCheck c) \<le> checkInterval u"
  shows "CheckForUpdate e u currentVersion channel w = (Inr (cachedNotification c), w)"
  using assms by (simp add: CheckForUpdate_def shouldCheckForUpdate_def cachedNotification_def Let_def)

lemma saveUpdateCache_ok:
  "cache_io_ok e u \<Longrightarrow> saveUpdateCache e u c w = w\<lparr>cache_file := Some c\<rparr>"
  by (simp add: saveUpdateCache_def cache_io_ok_def)

lemma CheckForUpdate_found_saves:
  assumes chk: "shouldCheckForUpdate e u (getCachedUpdate e u w)"
    and run: "CheckForUpdate e u currentVersion channel w = (Inr n, w1)"
    and av: "un_Available n"
    and io: "cache_io_ok e u"
  shows "\<exists>c q. cache_file w1 = Some c \<and> uc_LastCheck c = now e \<and> cachedNotification c = n \<and>
           events w1 = events w @ [q] \<and> fs w1 = fs w"
proof -
  from chk have nofresh: "\<not> (getCachedUpdate e u w \<noteq> None \<and> \<not> shouldCheckForUpdate e u (getCachedUpdate e u w))"
    by simp
  show ?thesis
    using run av nofresh
    unfolding CheckForUpdate_def Let_def
    by (auto simp: saveUpdateCache_ok [OF io] fetchRelease_def cachedNotification_def
        split: sum.splits prod.splits if_splits)
qed

text \<open>
  Claim C4 as stated fails: \<^verbatim>\<open>CheckForUpdate\<close> looks at the cache before it parses the
  current version, so with a fresh cache entry that records an update a development
  build is told that an update is available.
\<close>

theorem CheckForUpdate_dev_build_fresh_cache:
  "ParseVersion example_env ''dev'' = Inl (External ''invalid version format'') \<and>
   fst (CheckForUpdate example_env example_updater ''dev'' []
          (example_world\<lparr>cache_file := Some (example_cache (999 * hour))\<rparr>)) =
     Inr \<lparr>un_Available = True, un_CurrentVersion = ''1.0.0'', un_LatestVersion = ''1.1.0'',
          un_IsPreRelease = False,
          un_ReleaseURL = ''https://github.com/Binsabbar/tasklog/releases/tag/v1.1.0''\<rparr>"
  by (simp add: CheckForUpdate_def getCachedUpdate_def shouldCheckForUpdate_def time_Since_def
      time_Sub_def example_env_def example_ParseVersion_def example_world_def example_cache_def
      example_updater_def hour_def maxDuration_def minDuration_def Let_def)

text \<open>
  Claim C4, amended. For a current version that does not parse, \<^verbatim>\<open>CheckForUpdate\<close>
  returns no error and leaves the world, the cache with it, as it was, in every cache
  state. The notification has \<open>Available = false\<close> when there is no cache entry or the
  entry is older than the check interval; for a fresh entry it is the projection of
  that entry.
\<close>

theorem CheckForUpdate_unparsable_version:
  assumes "ParseVersion e currentVersion = Inl err"
  shows "\<exists>n. CheckForUpdate e u currentVersion channel w = (Inr n, w) \<and>
           (case getCachedUpdate e u w of
              None \<Rightarrow> \<not> un_Available n
            | Some c \<Rightarrow>
                if shouldCheckForUpdate e u (Some c) then \<not> un_Available n
                else n = \<lparr>un_Available = uc_UpdateAvailable c,
                          un_CurrentVersion = uc_CurrentVersion c,
                          un_LatestVersion = uc_LatestVersion c,
                          un_IsPreRelease = uc_IsPreRelease c,
                          un_ReleaseURL = uc_ReleaseURL c\<rparr>)"
  using assms by (auto simp: CheckForUpdate_def Let_def split: option.splits)

theorem CheckForUpdate_unparsable_version_witness:
  "ParseVersion example_env ''dev'' = Inl (External ''invalid version format'') \<and>
   (\<exists>n. CheckForUpdate example_env example_updater ''dev'' [] example_world = (Inr n, example_world) \<and>
         \<not> un_Available n)"
proof -
  have p: "ParseVersion example_env ''dev'' = Inl (External ''invalid version format'')"
    by (simp add: example_env_def example_ParseVersion_def)
  have c: "getCachedUpdate example_env example_updater example_world = None"
    by (simp add: getCachedUpdate_def example_env_def example_world_def)
  from CheckForUpdate_unparsable_version [OF p, of example_updater "[]" example_world] p c
  show ?thesis by simp
qed

text \<open>
  Claim C5. When a cache entry can be read and its age is at most the check interval,
  \<^verbatim>\<open>CheckForUpdate\<close> returns the projection of the entry and the world unchanged, so
  no query is sent. In particular, after a check that queried the release source, found
  an update and wrote the cache, a second call at a time \<open>t2\<close> within the check interval
  returns the same notification and sends no query, whatever its arguments.
\<close>

theorem CheckForUpdate_cached:
  "(\<forall>c. getCachedUpdate e u w = Some c \<and> time_Since e (uc_LastCheck c) \<le> checkInterval u \<longrightarrow>
        CheckForUpdate e u currentVersion channel w = (Inr (cachedNotification c), w)) \<and>
   (\<forall>n w1 t2. shouldCheckForUpdate e u (getCachedUpdate e u w) \<and>
        CheckForUpdate e u currentVersion channel w = (Inr n, w1) \<and> un_Available n \<and>
        cache_io_ok e u \<and> time_Sub t2 (now e) \<le> checkInterval u \<longrightarrow>
        CheckForUpdate (e\<lparr>now := t2\<rparr>) u currentVersion' channel' w1 = (Inr n, w1))"
proof (intro conjI allI impI)
  fix c
  assume "getCachedUpdate e u w = Some c \<and> time_Since e (uc_LastCheck c) \<le> checkInterval u"
  then show "CheckForUpdate e u currentVersion channel w = (Inr (cachedNotification c), w)"
    by (simp add: CheckForUpdate_fresh)
next
  fix n w1 t2
  assume h: "shouldCheckForUpdate e u (getCachedUpdate e u w) \<and>
        CheckForUpdate e u currentVersion channel w = (Inr n, w1) \<and> un_Available n \<and>
        cache_io_ok e u \<and> time_Sub t2 (now e) \<le> checkInterval u"
  then obtain c where c: "cache_file w1 = Some c" "uc_LastCheck c = now e" "cachedNotification c = n"
    using CheckForUpdate_found_saves [of e u w currentVersion channel n w1] by blast
  from h have "io_fail e (OpReadFile (getCacheFilePath u)) = None"
    by (simp add: cache_io_ok_def)
  with c have g: "getCachedUpdate (e\<lparr>now := t2\<rparr>) u w1 = Some c"
    by (simp add: getCachedUpdate_def)
  from h c have "time_Since (e\<lparr>now := t2\<rparr>) (uc_LastCheck c) \<le> checkInterval u"
    by (simp add: time_Since_def)
  with g c show "CheckForUpdate (e\<lparr>now := t2\<rparr>) u currentVersion' channel' w1 = (Inr n, w1)"
    using CheckForUpdate_fresh [of "e\<lparr>now := t2\<rparr>" u w1 c] by simp
qed

lemma example_first_check:
  "CheckForUpdate example_env example_updater ''1.0.0'' [] example_world =
     (Inr (cachedNotification (example_cache (1000 * hour))), example_checked)"
  by (simp add: CheckForUpdate_def getCachedUpdate_def shouldCheckForUpdate_def
      example_env_def example_ParseVersion_def example_world_def example_cache_def
      example_updater_def example_checked_def example_release_def determineChannel_def
      fetchRelease_def saveUpdateCache_def cachedNotification_def digit_def itoa.simps Let_def)

theorem CheckForUpdate_cached_witness:
  "CheckForUpdate example_env example_updater ''1.0.0'' [] example_world =
     (Inr (cachedNotification (example_cache (1000 * hour))), example_checked) \<and>
   un_Available (cachedNotification (example_cache (1000 * hour))) \<and>
   CheckForUpdate (example_env\<lparr>now := 1024 * hour\<rparr>) example_updater ''1.0.0'' [] example_checked =
     (Inr (cachedNotification (example_cache (1000 * hour))), example_checked) \<and>
   events example_checked = [GetLatestReleaseCall]"
proof -
  have chk: "shouldCheckForUpdate example_env example_updater
      (getCachedUpdate example_env example_updater example_world)"
    by (simp add: shouldCheckForUpdate_def getCachedUpdate_def example_env_def example_world_def)
  have av: "un_Available (cachedNotification (example_cache (1000 * hour)))"
    by (simp add: cachedNotification_def example_cache_def)
  have io: "cache_io_ok example_env example_updater"
    by (simp add: cache_io_ok_def example_env_def)
  have t: "time_Sub (1024 * hour) (now example_env) \<le> checkInterval example_updater"
    by (simp add: time_Sub_def example_env_def example_updater_def hour_def maxDuration_def
        minDuration_def)
  from CheckForUpdate_cached [of example_env example_updater example_world "''1.0.0''" "[]"
      "''1.0.0''" "[]"] example_first_check chk av io t
  have "CheckForUpdate (example_env\<lparr>now := 1024 * hour\<rparr>) example_updater ''1.0.0'' [] example_checked =
     (Inr (cachedNotification (example_cache (1000 * hour))), example_checked)"
    by blast
  with example_first_check av show ?thesis
    by (simp add: example_checked_def)
qed

text \<open>
  Claim C10. Given the same arguments and the same answers of the release source, the
  result of \<^verbatim>\<open>GetUpdateInfo\<close> is the same for any two worlds (cache files), any two
  updaters (cache directory, check interval), any two clock readings and whatever the
  file system refuses: the function reads neither the cache nor the clock. It changes
  the cache file only when it returns an update.
\<close>

theorem GetUpdateInfo_ignores_cache:
  "fst (GetUpdateInfo e u currentVersion channel w) =
     fst (GetUpdateInfo (e\<lparr>now := t', io_fail := refuse'\<rparr>) u' currentVersion channel w') \<and>
   (cache_file (snd (GetUpdateInfo e u currentVersion channel w)) \<noteq> cache_file w \<longrightarrow>
      (\<exists>info. fst (GetUpdateInfo e u currentVersion channel w) = Inr (Some info)))"
proof -
  let ?e = "e\<lparr>now := t', io_fail := refuse'\<rparr>"
  have ch: "\<And>v. determineChannel ?e v channel = determineChannel e v channel"
    by (simp add: determineChannel_def)
  have hint: "getAssetNameForPlatform ?e = getAssetNameForPlatform e"
    by (simp add: getAssetNameForPlatform_def)
  have fetch: "\<And>c. fst (fetchRelease ?e c w') = fst (fetchRelease e c w)"
    by (simp add: fetchRelease_def)
  have a: "fst (GetUpdateInfo e u currentVersion channel w) =
     fst (GetUpdateInfo ?e u' currentVersion channel w')"
  proof (cases "ParseVersion e currentVersion")
    case (Inl err)
    then show ?thesis by (simp add: GetUpdateInfo_def)
  next
    case (Inr current)
    obtain r w1 where f1: "fetchRelease e (determineChannel e current channel) w = (r, w1)"
      by fastforce
    obtain r' w1' where f2: "fetchRelease ?e (determineChannel e current channel) w' = (r', w1')"
      by fastforce
    from fetch [of "determineChannel e current channel"] f1 f2 have same: "r' = r" by simp
    show ?thesis
    proof (cases r)
      case (Inl err)
      with Inr f1 f2 same show ?thesis by (simp add: GetUpdateInfo_def ch)
    next
      case rel: (Inr release)
      show ?thesis
      proof (cases "ParseVersion e (TagName release)")
        case (Inl err)
        with Inr f1 f2 same rel show ?thesis by (simp add: GetUpdateInfo_def ch)
      next
        case latest: (Inr latest)
        with Inr f1 f2 same rel show ?thesis
          by (simp add: GetUpdateInfo_def ch hint Let_def case_prod_unfold)
      qed
    qed
  qed
  have b: "cache_file (snd (GetUpdateInfo e u currentVersion channel w)) \<noteq> cache_file w \<longrightarrow>
      (\<exists>info. fst (GetUpdateInfo e u currentVersion channel w) = Inr (Some info))"
    unfolding GetUpdateInfo_def Let_def
    by (auto split: sum.splits prod.splits simp: fetchRelease_def)
  from a b show ?thesis by blast
qed

theorem GetUpdateInfo_ignores_cache_witness:
  "cache_file (snd (GetUpdateInfo example_env example_updater ''v1.0.0'' [] example_world))
     \<noteq> cache_file example_world \<and>
   (\<exists>info. fst (GetUpdateInfo example_env example_updater ''v1.0.0'' [] example_world) =
      Inr (Some info)) \<and>
   fst (GetUpdateInfo example_env example_updater ''v1.0.0'' [] example_world) =
     fst (GetUpdateInfo (example_env\<lparr>now := 1001 * hour, io_fail := (\<lambda>c. None)\<rparr>)
            (example_updater\<lparr>checkInterval := 0\<rparr>) ''v1.0.0'' [] example_checked)"
proof -
  have "cache_file (snd (GetUpdateInfo example_env example_updater ''v1.0.0'' [] example_world))
     \<noteq> cache_file example_world"
    by (simp add: GetUpdateInfo_def example_env_def example_ParseVersion_def determineChannel_def
        fetchRelease_def example_release_def getAssetNameForPlatform_def saveUpdateCache_def
        example_world_def itoa.simps digit_def Let_def)
  with GetUpdateInfo_ignores_cache [where e = example_env and u = example_updater
      and currentVersion = "''v1.0.0''" and channel = "[]" and w = example_world
      and t' = "1001 * hour" and refuse' = "\<lambda>c. None"
      and u' = "example_updater\<lparr>checkInterval := 0\<rparr>" and w' = example_checked]
  show ?thesis by blast
qed

subsection \<open>Upgrading\<close>

text \<open>
  Claim C8. When the confirmation callback answers no, \<^verbatim>\<open>PerformUpgrade\<close> returns the
  empty backup path and an error whose message contains \<^verbatim>\<open>cancelled by user\<close>; the
  world is the one before the call with the summary printed, so no file, and neither
  the cache nor the network, has been touched.
\<close>

theorem PerformUpgrade_cancelled:
  assumes "\<not> confirm ''Do you want to upgrade now?''"
  shows "\<exists>err. PerformUpgrade e updateInfo confirm w =
           (([], Some err), w\<lparr>stdout := stdout w @ upgradeSummary updateInfo\<rparr>) \<and>
         strings_Contains (Error err) ''cancelled by user''"
  using assms by (simp add: PerformUpgrade_def Let_def)

theorem PerformUpgrade_cancelled_witness:
  "\<not> (\<lambda>prompt. False) ''Do you want to upgrade now?'' \<and>
   (\<exists>err. PerformUpgrade example_env example_info (\<lambda>prompt. False) example_world =
           (([], Some err), example_world\<lparr>stdout := stdout example_world @ upgradeSummary example_info\<rparr>) \<and>
         strings_Contains (Error err) ''cancelled by user'')"
  using PerformUpgrade_cancelled [of "\<lambda>prompt. False" example_env example_info example_world]
  by simp

section \<open>The installer\<close>

subsection \<open>Files a call leaves alone\<close>

lemma os_Create_frame:
  "os_Create e q files = Inr files' \<Longrightarrow> x \<noteq> q \<Longrightarrow> files' x = files x"
  by (auto simp: os_Create_def split: if_splits option.splits)

lemma os_Create_not_exe:
  "os_Create e q files = Inr files' \<Longrightarrow> Executable e \<noteq> Inr q"
  by (auto simp: os_Create_def split: if_splits)

lemma os_Remove_frame: "x \<noteq> q \<Longrightarrow> snd (os_Remove e q files) x = files x"
  by (simp add: os_Remove_def split: option.splits)

lemma os_Chmod_frame:
  "os_Chmod e q m files = (r, files') \<Longrightarrow> x \<noteq> q \<Longrightarrow> files' x = files x"
  by (auto simp: os_Chmod_def split: option.splits)

lemma os_Rename_failed: "os_Rename e a b files = (Some err, files') \<Longrightarrow> files' = files"
  by (auto simp: os_Rename_def split: option.splits)

lemma os_Rename_frame:
  "os_Rename e a b files = (r, files') \<Longrightarrow> x \<noteq> a \<Longrightarrow> x \<noteq> b \<Longrightarrow> files' x = files x"
  by (auto simp: os_Rename_def split: option.splits)

lemma os_Rename_done:
  "os_Rename e a b files = (None, files') \<Longrightarrow> a \<noteq> b \<Longrightarrow> files' b = files a \<and> files' a = None"
  by (auto simp: os_Rename_def split: option.splits)

lemma io_Copy_frame:
  "io_Copy e src dst files = (r, files') \<Longrightarrow> x \<noteq> dst \<Longrightarrow> files' x = files x"
  by (auto simp: io_Copy_def split: option.splits)

lemma os_CreateTemp_fresh:
  "os_CreateTemp e pre files = Inr (tmp, files') \<Longrightarrow>
     tmp = temp_name e pre \<and> files tmp = None \<and>
     files' = files(tmp \<mapsto> \<lparr>content = [], mode = 384\<rparr>)"
  by (auto simp: os_CreateTemp_def split: option.splits if_splits)

lemma download_to_frame:
  "download_to e url q w = (r, w') \<Longrightarrow> x \<noteq> q \<Longrightarrow> fs w' x = fs w x"
  by (auto simp: download_to_def Let_def split: option.splits)

lemma download_to_content:
  "download_to e url q w = (r, w') \<Longrightarrow> fs w q = Some f \<Longrightarrow>
     fs w' q = Some (f\<lparr>content := fst (DownloadAsset e url)\<rparr>) \<and> r = snd (DownloadAsset e url)"
  by (auto simp: download_to_def Let_def)

lemma download_to_rest:
  "download_to e url q w = (r, w') \<Longrightarrow>
     events w' = events w @ [DownloadAssetCall url] \<and> cache_file w' = cache_file w \<and>
     stdout w' = stdout w"
  by (auto simp: download_to_def Let_def)

lemma checkWritePermission_exe:
  assumes "Executable e = Inr x"
  shows "snd (checkWritePermission e p files) x = files x"
proof (cases "x = filepath_Join (filepath_Dir p) ''.tasklog_write_test''")
  case True
  with assms show ?thesis
    by (simp add: checkWritePermission_def os_Create_def Let_def)
next
  case False
  then show ?thesis
    by (auto simp: checkWritePermission_def Let_def os_Remove_frame os_Create_frame
        split: sum.splits)
qed

subsection \<open>Temporary names\<close>

lemma digit_in: "digit d \<in> set ''0123456789''"
  unfolding digit_def by (rule nth_mem) simp

lemma itoa_last: "itoa n \<noteq> [] \<and> last (itoa n) \<in> set ''0123456789''"
proof (cases "n < 10")
  case True
  then have "itoa n = [digit n]" by (subst itoa.simps) simp
  with digit_in [of n] show ?thesis by simp
next
  case False
  then have "itoa n = itoa (n div 10) @ [digit (n mod 10)]" by (subst itoa.simps) simp
  with digit_in [of "n mod 10"] show ?thesis by simp
qed

lemma temp_name_last: "last (temp_name e pre) \<in> set ''0123456789''"
  using itoa_last [of "rand e pre"] by (simp add: temp_name_def)

lemma temp_name_not_backup: "temp_name e pre \<noteq> q @ ''.backup''"
proof
  assume "temp_name e pre = q @ ''.backup''"
  then have "last (temp_name e pre) = CHR ''p''" by simp
  with temp_name_last [of e pre] show False by simp
qed

lemma copyFile_frame:
  "copyFile e src dst files = (r, files') \<Longrightarrow> x \<noteq> dst \<Longrightarrow> files' x = files x"
  unfolding copyFile_def
  by (auto split: sum.splits prod.splits option.splits
      dest!: os_Create_frame [where x = x] io_Copy_frame [where x = x] os_Chmod_frame [where x = x])

lemma copyFile_done:
  assumes "copyFile e src dst files = (None, files')" and "src \<noteq> dst"
  shows "\<exists>f. files src = Some f \<and> files' dst = Some \<lparr>content = content f, mode = mode f\<rparr>"
  using assms unfolding copyFile_def
  by (auto simp: os_Open_def os_Create_def io_Copy_def os_Stat_def os_Chmod_def
      split: sum.splits prod.splits option.splits if_splits)

subsection \<open>Checksum verification\<close>

lemma verifyChecksum_body_frame:
  "verifyChecksum_body e filePath url tmp w = (r, w') \<Longrightarrow> x \<noteq> tmp \<Longrightarrow> fs w' x = fs w x"
  unfolding verifyChecksum_body_def Let_def
  by (auto split: prod.splits option.splits sum.splits if_splits dest: download_to_frame)

lemma verifyChecksum_body_rest:
  "verifyChecksum_body e filePath url tmp w = (r, w') \<Longrightarrow>
     events w' = events w @ [DownloadAssetCall url] \<and> cache_file w' = cache_file w \<and>
     stdout w' = stdout w"
  unfolding verifyChecksum_body_def Let_def
  by (auto split: prod.splits option.splits sum.splits if_splits dest: download_to_rest)

lemma verifyChecksum_body_passed:
  assumes run: "verifyChecksum_body e filePath url tmp w = (None, w')"
    and tmp: "fs w tmp = Some t" and live: "fs w filePath = Some f" and ne: "filePath \<noteq> tmp"
  shows "sha256_hex e (content f) = TrimSpace e (fst (DownloadAsset e url))"
proof -
  obtain r1 w1 where d: "download_to e url tmp w = (r1, w1)" by fastforce
  from download_to_content [OF d tmp]
  have t1: "fs w1 tmp = Some (t\<lparr>content := fst (DownloadAsset e url)\<rparr>)" by simp
  from download_to_frame [OF d ne] live have f1: "fs w1 filePath = Some f" by simp
  from run d t1 f1 show ?thesis
    unfolding verifyChecksum_body_def Let_def
    by (auto simp: os_Open_def split: option.splits if_splits)
qed

lemma verifyChecksum_body_mismatch:
  assumes io: "\<forall>c. io_fail e c = None" and dl: "snd (DownloadAsset e url) = None"
    and tmp: "fs w tmp = Some t" and live: "fs w filePath = Some f" and ne: "filePath \<noteq> tmp"
    and diff: "sha256_hex e (content f) \<noteq> TrimSpace e (fst (DownloadAsset e url))"
  shows "fst (verifyChecksum_body e filePath url tmp w) =
           Some (checksum_mismatch (TrimSpace e (fst (DownloadAsset e url))) (sha256_hex e (content f)))"
proof -
  obtain r1 w1 where d: "download_to e url tmp w = (r1, w1)" by fastforce
  from download_to_content [OF d tmp] dl
  have t1: "fs w1 tmp = Some (t\<lparr>content := fst (DownloadAsset e url)\<rparr>)" and r1: "r1 = None"
    by simp_all
  from download_to_frame [OF d ne] live have f1: "fs w1 filePath = Some f" by simp
  from d t1 r1 f1 io diff show ?thesis
    unfolding verifyChecksum_body_def Let_def
    by (simp add: os_Open_def)
qed

lemma verifyChecksum_frame:
  assumes "verifyChecksum e filePath url w = (r, w')" and "fs w x \<noteq> None"
  shows "fs w' x = fs w x"
proof (cases "os_CreateTemp e ''tasklog-checksum-'' (fs w)")
  case (Inl err)
  with assms show ?thesis by (auto simp: verifyChecksum_def Let_def)
next
  case (Inr a)
  then obtain tmp files1 where a: "a = (tmp, files1)" by (cases a)
  from Inr a have ct: "os_CreateTemp e ''tasklog-checksum-'' (fs w) = Inr (tmp, files1)" by simp
  from os_CreateTemp_fresh [OF ct]
  have fresh: "fs w tmp = None" and f1: "files1 = (fs w)(tmp \<mapsto> \<lparr>content = [], mode = 384\<rparr>)"
    by blast+
  from fresh assms(2) have ne: "x \<noteq> tmp" by auto
  obtain r2 w2 where b: "verifyChecksum_body e filePath url tmp
      (w\<lparr>events := events w @ [VerifyChecksumCall filePath url], fs := files1\<rparr>) = (r2, w2)"
    by fastforce
  from verifyChecksum_body_frame [OF b ne] f1 ne have "fs w2 x = fs w x" by simp
  with assms(1) Inr a b ne show ?thesis
    by (auto simp: verifyChecksum_def Let_def os_Remove_frame)
qed

lemma verifyChecksum_passed:
  assumes run: "verifyChecksum e filePath url w = (None, w')" and live: "fs w filePath = Some f"
  shows "sha256_hex e (content f) = TrimSpace e (fst (DownloadAsset e url))"
proof (cases "os_CreateTemp e ''tasklog-checksum-'' (fs w)")
  case (Inl err)
  with run show ?thesis by (auto simp: verifyChecksum_def Let_def)
next
  case (Inr a)
  then obtain tmp files1 where a: "a = (tmp, files1)" by (cases a)
  from Inr a have ct: "os_CreateTemp e ''tasklog-checksum-'' (fs w) = Inr (tmp, files1)" by simp
  from os_CreateTemp_fresh [OF ct]
  have fresh: "fs w tmp = None" and f1: "files1 = (fs w)(tmp \<mapsto> \<lparr>content = [], mode = 384\<rparr>)"
    by blast+
  from fresh live have ne: "filePath \<noteq> tmp" by auto
  obtain r2 w2 where b: "verifyChecksum_body e filePath url tmp
      (w\<lparr>events := events w @ [VerifyChecksumCall filePath url], fs := files1\<rparr>) = (r2, w2)"
    by fastforce
  from run Inr a b have "r2 = None" by (auto simp: verifyChecksum_def Let_def)
  with b f1 live ne verifyChecksum_body_passed [of e filePath url tmp
      "w\<lparr>events := events w @ [VerifyChecksumCall filePath url], fs := files1\<rparr>" w2
      "\<lparr>content = [], mode = 384\<rparr>" f]
  show ?thesis by simp
qed

lemma verifyChecksum_mismatch:
  assumes io: "\<forall>c. io_fail e c = None" and dl: "snd (DownloadAsset e url) = None"
    and fresh: "fs w (temp_name e ''tasklog-checksum-'') = None"
    and live: "fs w filePath = Some f"
    and diff: "sha256_hex e (content f) \<noteq> TrimSpace e (fst (DownloadAsset e url))"
  shows "fst (verifyChecksum e filePath url w) =
           Some (checksum_mismatch (TrimSpace e (fst (DownloadAsset e url))) (sha256_hex e (content f)))"
proof -
  let ?tmp = "temp_name e ''tasklog-checksum-''"
  let ?w1 = "w\<lparr>events := events w @ [VerifyChecksumCall filePath url],
               fs := (fs w)(?tmp \<mapsto> \<lparr>content = [], mode = 384\<rparr>)\<rparr>"
  from fresh live have ne: "filePath \<noteq> ?tmp" by auto
  from io fresh have ct: "os_CreateTemp e ''tasklog-checksum-'' (fs w) =
      Inr (?tmp, (fs w)(?tmp \<mapsto> \<lparr>content = [], mode = 384\<rparr>))"
    by (simp add: os_CreateTemp_def)
  from verifyChecksum_body_mismatch [of e url ?w1 ?tmp "\<lparr>content = [], mode = 384\<rparr>" filePath f]
    io dl live ne diff
  have "fst (verifyChecksum_body e filePath url ?tmp ?w1) =
           Some (checksum_mismatch (TrimSpace e (fst (DownloadAsset e url))) (sha256_hex e (content f)))"
    by simp
  with ct show ?thesis
    by (simp add: verifyChecksum_def Let_def case_prod_unfold)
qed

lemma verifyChecksum_rest:
  "verifyChecksum e filePath url w = (r, w') \<Longrightarrow>
     cache_file w' = cache_file w \<and> stdout w' = stdout w"
  unfolding verifyChecksum_def Let_def
  by (auto split: sum.splits prod.splits dest: verifyChecksum_body_rest)

subsection \<open>Download and replace\<close>

lemma downloadAndReplace_body_outcome:
  assumes run: "downloadAndReplace_body e p tmp durl curl w = ((bp, err), w')"
    and live: "fs w p = Some f" and tmpf: "fs w tmp = Some t"
    and ne: "tmp \<noteq> p" and nb: "tmp \<noteq> p @ ''.backup''"
  shows "(bp = [] \<and> err \<noteq> None \<and> fs w' p = Some f) \<or>
         (bp = p @ ''.backup'' \<and> fs w' bp = Some \<lparr>content = content f, mode = mode f\<rparr> \<and>
          (curl \<noteq> [] \<longrightarrow>
             sha256_hex e (fst (DownloadAsset e durl)) = TrimSpace e (fst (DownloadAsset e curl))) \<and>
          ((\<exists>x. err = Some (Wrap ''failed to replace binary'' x []) \<and> fs w' p = Some f) \<or>
           (err = None \<and> fs w' p = Some \<lparr>content = fst (DownloadAsset e durl), mode = 493\<rparr> \<and>
            fs w' tmp = None)))"
proof -
  let ?b = "p @ ''.backup''"
  have pb: "p \<noteq> ?b" by simp
  obtain r1 w1 where d: "download_to e durl tmp w = (r1, w1)" by fastforce
  have p1: "fs w1 p = Some f"
    using download_to_frame [OF d, of p] ne live by simp
  have t1: "fs w1 tmp = Some (t\<lparr>content := fst (DownloadAsset e durl)\<rparr>)"
    using download_to_content [OF d tmpf] by simp
  show ?thesis
  proof (cases r1)
    case (Some e1)
    with run d p1 show ?thesis by (auto simp: downloadAndReplace_body_def)
  next
    case r1: None
    obtain r2 w2 where v: "(if curl \<noteq> [] then verifyChecksum e tmp curl w1 else (None, w1)) = (r2, w2)"
      by fastforce
    have p2: "fs w2 p = Some f"
      using v p1 verifyChecksum_frame [of e tmp curl w1 r2 w2 p] by (auto split: if_splits)
    have t2: "fs w2 tmp = Some (t\<lparr>content := fst (DownloadAsset e durl)\<rparr>)"
      using v t1 verifyChecksum_frame [of e tmp curl w1 r2 w2 tmp] by (auto split: if_splits)
    show ?thesis
    proof (cases r2)
      case (Some e2)
      with run d r1 v p2 show ?thesis by (auto simp: downloadAndReplace_body_def)
    next
      case r2: None
      have dig: "curl \<noteq> [] \<longrightarrow>
          sha256_hex e (fst (DownloadAsset e durl)) = TrimSpace e (fst (DownloadAsset e curl))"
        using v r2 t1 verifyChecksum_passed [of e tmp curl w1 w2] by (auto split: if_splits)
      obtain r3 files3 where c: "os_Chmod e tmp 493 (fs w2) = (r3, files3)" by fastforce
      have p3: "files3 p = Some f"
        using os_Chmod_frame [OF c, of p] ne p2 by simp
      show ?thesis
      proof (cases r3)
        case (Some e3)
        with run d r1 v r2 c p3 show ?thesis by (auto simp: downloadAndReplace_body_def)
      next
        case r3: None
        from c r3 t2 have t3: "files3 tmp = Some \<lparr>content = fst (DownloadAsset e durl), mode = 493\<rparr>"
          by (auto simp: os_Chmod_def split: option.splits)
        obtain r4 files4 where k: "copyFile e p ?b files3 = (r4, files4)" by fastforce
        have p4: "files4 p = Some f"
          using copyFile_frame [OF k, of p] p3 by simp
        have t4: "files4 tmp = files3 tmp"
          using copyFile_frame [OF k, of tmp] nb by simp
        show ?thesis
        proof (cases r4)
          case (Some e4)
          with run d r1 v r2 c r3 k p4 show ?thesis
            by (auto simp: downloadAndReplace_body_def Let_def)
        next
          case r4: None
          from copyFile_done [of e p ?b files3 files4] k r4 p3
          have b4: "files4 ?b = Some \<lparr>content = content f, mode = mode f\<rparr>" by auto
          obtain r5 files5 where m: "os_Rename e tmp p files4 = (r5, files5)" by fastforce
          have b5: "files5 ?b = Some \<lparr>content = content f, mode = mode f\<rparr>"
            using os_Rename_frame [OF m, of ?b] nb b4 by simp
          from run d r1 v r2 c r3 k r4 m
          have res: "bp = ?b" "err = map_option (\<lambda>x. Wrap ''failed to replace binary'' x []) r5"
            "fs w' = files5"
            by (auto simp: downloadAndReplace_body_def Let_def split: option.splits)
          show ?thesis
          proof (cases r5)
            case (Some e5)
            with os_Rename_failed [of e tmp p files4 e5 files5] m have "files5 = files4" by simp
            with res Some b5 p4 dig show ?thesis by simp
          next
            case None
            with os_Rename_done [of e tmp p files4 files5] m ne t4 t3
            have "files5 p = Some \<lparr>content = fst (DownloadAsset e durl), mode = 493\<rparr>"
              and "files5 tmp = None" by simp_all
            with res None b5 dig show ?thesis by simp
          qed
        qed
      qed
    qed
  qed
qed

lemma downloadAndReplace_body_no_checksum:
  assumes "downloadAndReplace_body e p tmp durl [] w = ((bp, err), w')"
  shows "events w' = events w @ [DownloadAssetCall durl] \<and> cache_file w' = cache_file w \<and>
         stdout w' = stdout w \<and> (\<forall>x s. err \<noteq> Some (Wrap ''checksum verification failed'' x s))"
  using assms unfolding downloadAndReplace_body_def Let_def
  by (auto split: prod.splits option.splits dest: download_to_rest)

lemma downloadAndReplace_outcome:
  assumes run: "downloadAndReplace e durl curl w = ((bp, err), w')"
  shows "(bp = [] \<and> err \<noteq> None \<and> (\<forall>p. Executable e = Inr p \<longrightarrow> fs w' p = fs w p)) \<or>
         (\<exists>p f. Executable e = Inr p \<and> fs w p = Some f \<and> bp = p @ ''.backup'' \<and>
            fs w' bp = Some \<lparr>content = content f, mode = mode f\<rparr> \<and>
            (curl \<noteq> [] \<longrightarrow>
               sha256_hex e (fst (DownloadAsset e durl)) = TrimSpace e (fst (DownloadAsset e curl))) \<and>
            ((\<exists>x. err = Some (Wrap ''failed to replace binary'' x []) \<and> fs w' p = Some f) \<or>
             (err = None \<and> fs w' p = Some \<lparr>content = fst (DownloadAsset e durl), mode = 493\<rparr>)))"
proof (cases "Executable e")
  case (Inl e0)
  with run show ?thesis by (auto simp: downloadAndReplace_def)
next
  case exe: (Inr p)
  show ?thesis
  proof (cases "filepath_EvalSymlinks e p (fs w)")
    case (Inl e1)
    with run exe show ?thesis by (auto simp: downloadAndReplace_def)
  next
    case (Inr q)
    then have q: "q = p" and ex: "fs w p \<noteq> None"
      by (auto simp: filepath_EvalSymlinks_def split: option.splits if_splits)
    then obtain f where live: "fs w p = Some f" by auto
    from Inr q have ev: "filepath_EvalSymlinks e p (fs w) = Inr p" by simp
    obtain r1 files1 where cw: "checkWritePermission e p (fs w) = (r1, files1)" by fastforce
    from checkWritePermission_exe [OF exe, of p "fs w"] cw live
    have p1: "files1 p = Some f" by simp
    show ?thesis
    proof (cases r1)
      case (Some e2)
      with run exe ev cw p1 live show ?thesis by (auto simp: downloadAndReplace_def)
    next
      case r1: None
      show ?thesis
      proof (cases "os_CreateTemp e ''tasklog-update-'' files1")
        case (Inl e3)
        with run exe ev cw r1 p1 live show ?thesis by (auto simp: downloadAndReplace_def)
      next
        case (Inr a)
        then obtain tmp files2 where ct: "os_CreateTemp e ''tasklog-update-'' files1 = Inr (tmp, files2)"
          by (cases a) simp
        from os_CreateTemp_fresh [OF ct]
        have tn: "tmp = temp_name e ''tasklog-update-''" and fresh: "files1 tmp = None"
          and f2: "files2 = files1(tmp \<mapsto> \<lparr>content = [], mode = 384\<rparr>)"
          by blast+
        from fresh p1 have ne: "tmp \<noteq> p" by auto
        from tn temp_name_not_backup [of e "''tasklog-update-''" p]
        have nb: "tmp \<noteq> p @ ''.backup''" by simp
        obtain r3 w3 where body: "downloadAndReplace_body e p tmp durl curl (w\<lparr>fs := files2\<rparr>) = (r3, w3)"
          by fastforce
        from run exe ev cw r1 ct body
        have res: "r3 = (bp, err)" "fs w' = snd (os_Remove e tmp (fs w3))"
          by (auto simp: downloadAndReplace_def)
        from f2 ne p1 have p2: "fs (w\<lparr>fs := files2\<rparr>) p = Some f" by simp
        from f2 have t2: "fs (w\<lparr>fs := files2\<rparr>) tmp = Some \<lparr>content = [], mode = 384\<rparr>" by simp
        from res ne have keep_p: "fs w' p = fs w3 p" by (simp add: os_Remove_frame)
        from res nb have keep_b: "fs w' (p @ ''.backup'') = fs w3 (p @ ''.backup'')"
          by (simp add: os_Remove_frame)
        from downloadAndReplace_body_outcome [OF body [unfolded res(1)] p2 t2 ne nb]
          keep_p keep_b exe live
        show ?thesis by auto
      qed
    qed
  qed
qed

lemma downloadAndReplace_no_checksum:
  assumes "downloadAndReplace e durl [] w = ((bp, err), w')"
  shows "(events w' = events w \<or> events w' = events w @ [DownloadAssetCall durl]) \<and>
         cache_file w' = cache_file w \<and> stdout w' = stdout w \<and>
         (\<forall>x s. err \<noteq> Some (Wrap ''checksum verification failed'' x s))"
  using assms unfolding downloadAndReplace_def
  by (auto split: sum.splits prod.splits option.splits
      dest!: downloadAndReplace_body_no_checksum)

lemma downloadAndReplace_mismatch:
  assumes ok: "no_other_failure e durl curl w" and url: "curl \<noteq> []"
    and diff: "sha256_hex e (fst (DownloadAsset e durl)) \<noteq> TrimSpace e (fst (DownloadAsset e curl))"
  shows "fst (downloadAndReplace e durl curl w) =
           ([], Some (Wrap ''checksum verification failed''
                  (checksum_mismatch (TrimSpace e (fst (DownloadAsset e curl)))
                     (sha256_hex e (fst (DownloadAsset e durl)))) []))"
proof -
  let ?test = "\<lambda>p. filepath_Join (filepath_Dir p) ''.tasklog_write_test''"
  let ?tmp = "temp_name e ''tasklog-update-''"
  let ?ctmp = "temp_name e ''tasklog-checksum-''"
  from ok have io: "\<forall>c. io_fail e c = None"
    and d1: "snd (DownloadAsset e durl) = None" and d2: "snd (DownloadAsset e curl) = None"
    and f1: "fs w ?tmp = None" and f2: "fs w ?ctmp = None"
    by (simp_all add: no_other_failure_def)
  from ok obtain p where exe: "Executable e = Inr p" and live: "fs w p \<noteq> None" and tp: "?test p \<noteq> p"
    by (auto simp: no_other_failure_def split: sum.splits)
  from io live have ev: "filepath_EvalSymlinks e p (fs w) = Inr p"
    by (simp add: filepath_EvalSymlinks_def)
  define files1 where "files1 = snd (os_Remove e (?test p) ((fs w)(?test p \<mapsto>
      \<lparr>content = [], mode = (case fs w (?test p) of Some f \<Rightarrow> mode f | None \<Rightarrow> create_mode e)\<rparr>)))"
  from io exe tp have cw: "checkWritePermission e p (fs w) = (None, files1)"
    by (auto simp: checkWritePermission_def os_Create_def Let_def files1_def)
  have sub: "\<And>x. fs w x = None \<Longrightarrow> files1 x = None"
    using io by (simp add: files1_def os_Remove_def)
  from sub f1 io have ct: "os_CreateTemp e ''tasklog-update-'' files1 =
      Inr (?tmp, files1(?tmp \<mapsto> \<lparr>content = [], mode = 384\<rparr>))"
    by (simp add: os_CreateTemp_def)
  let ?w2 = "w\<lparr>fs := files1(?tmp \<mapsto> \<lparr>content = [], mode = 384\<rparr>)\<rparr>"
  have tc: "?ctmp \<noteq> ?tmp" by (simp add: temp_name_def)
  define w1 where "w1 = snd (download_to e durl ?tmp ?w2)"
  have dl: "download_to e durl ?tmp ?w2 = (None, w1)"
    using d1 by (simp add: w1_def download_to_def Let_def)
  have t1: "fs w1 ?tmp = Some \<lparr>content = fst (DownloadAsset e durl), mode = 384\<rparr>"
    by (simp add: w1_def download_to_def Let_def)
  have fc: "fs w1 ?ctmp = None"
    using tc sub [OF f2] by (simp add: w1_def download_to_def Let_def)
  from verifyChecksum_mismatch [OF io d2 fc t1] diff
  have v: "fst (verifyChecksum e ?tmp curl w1) =
      Some (checksum_mismatch (TrimSpace e (fst (DownloadAsset e curl)))
              (sha256_hex e (fst (DownloadAsset e durl))))"
    by simp
  from dl v url have "fst (downloadAndReplace_body e p ?tmp durl curl ?w2) =
      ([], Some (Wrap ''checksum verification failed''
                  (checksum_mismatch (TrimSpace e (fst (DownloadAsset e curl)))
                     (sha256_hex e (fst (DownloadAsset e durl)))) []))"
    by (cases "verifyChecksum e ?tmp curl w1") (simp add: downloadAndReplace_body_def)
  with exe ev cw ct show ?thesis
    by (simp add: downloadAndReplace_def case_prod_unfold)
qed

lemmas example_defs =
  example_env_def example_env_rename_fails_def example_world_def example_DownloadAsset_def
  example_sha256_hex_def example_TrimSpace_def example_info_def

lemmas installer_defs =
  downloadAndReplace_def downloadAndReplace_body_def checkWritePermission_def copyFile_def
  verifyChecksum_def verifyChecksum_body_def download_to_def filepath_EvalSymlinks_def
  filepath_Dir_def filepath_Join_def os_Create_def os_Open_def os_Stat_def os_Remove_def
  os_Chmod_def os_Rename_def os_CreateTemp_def io_Copy_def temp_name_def digit_def
  checksum_mismatch_def

lemma itoa_42: "itoa 42 = ''42''"
  by (simp add: itoa.simps digit_def)

subsection \<open>The replacement step\<close>

lemma filepath_EvalSymlinks_same:
  "filepath_EvalSymlinks e p files = Inr q \<Longrightarrow> q = p \<and> files p \<noteq> None"
  by (auto simp: filepath_EvalSymlinks_def split: option.splits if_splits)

lemma replacementStep_reached:
  assumes "replacementStep e durl curl w = Some (p, tmp, w4)"
  shows "Executable e = Inr p \<and>
         (\<exists>f. fs w p = Some f \<and> fs w4 p = Some f \<and>
              fs w4 (p @ ''.backup'') = Some \<lparr>content = content f, mode = mode f\<rparr>) \<and>
         fs w4 tmp = Some \<lparr>content = fst (DownloadAsset e durl), mode = 493\<rparr> \<and>
         tmp \<noteq> p \<and> tmp \<noteq> p @ ''.backup'' \<and>
         downloadAndReplace e durl curl w =
           (case os_Rename e tmp p (fs w4) of
              (Some err, files5) \<Rightarrow>
                ((p @ ''.backup'', Some (Wrap ''failed to replace binary'' err [])),
                 w4\<lparr>fs := snd (os_Remove e tmp files5)\<rparr>)
            | (None, files5) \<Rightarrow>
                ((p @ ''.backup'', None), w4\<lparr>fs := snd (os_Remove e tmp files5)\<rparr>))"
proof -
  from assms obtain exe files1 files2 w1 w2 files3 files4 where
    exe: "Executable e = Inr exe"
    and ev: "filepath_EvalSymlinks e exe (fs w) = Inr p"
    and cw: "checkWritePermission e p (fs w) = (None, files1)"
    and ct: "os_CreateTemp e ''tasklog-update-'' files1 = Inr (tmp, files2)"
    and dl: "download_to e durl tmp (w\<lparr>fs := files2\<rparr>) = (None, w1)"
    and vc: "(if curl \<noteq> [] then verifyChecksum e tmp curl w1 else (None, w1)) = (None, w2)"
    and cm: "os_Chmod e tmp 493 (fs w2) = (None, files3)"
    and cp: "copyFile e p (p @ ''.backup'') files3 = (None, files4)"
    and w4: "w4 = w2\<lparr>fs := files4\<rparr>"
    unfolding replacementStep_def
    by (auto split: sum.splits prod.splits option.splits)
  from filepath_EvalSymlinks_same [OF ev] have pe: "p = exe" and ex: "fs w p \<noteq> None" by auto
  then obtain f where live: "fs w p = Some f" by auto
  from exe pe have exe': "Executable e = Inr p" by simp
  from checkWritePermission_exe [OF exe', of p "fs w"] cw live
  have p1: "files1 p = Some f" by simp
  from os_CreateTemp_fresh [OF ct]
  have tn: "tmp = temp_name e ''tasklog-update-''" and fresh: "files1 tmp = None"
    and f2: "files2 = files1(tmp \<mapsto> \<lparr>content = [], mode = 384\<rparr>)"
    by blast+
  from fresh p1 have ne: "tmp \<noteq> p" by auto
  from tn temp_name_not_backup [of e "''tasklog-update-''" p]
  have nb: "tmp \<noteq> p @ ''.backup''" by simp
  from f2 ne p1 have p2: "fs (w\<lparr>fs := files2\<rparr>) p = Some f" by simp
  from f2 have t2: "fs (w\<lparr>fs := files2\<rparr>) tmp = Some \<lparr>content = [], mode = 384\<rparr>" by simp
  have pw1: "fs w1 p = Some f"
    using download_to_frame [OF dl, of p] ne p2 by simp
  have tw1: "fs w1 tmp = Some \<lparr>content = fst (DownloadAsset e durl), mode = 384\<rparr>"
    using download_to_content [OF dl t2] by simp
  have pw2: "fs w2 p = Some f"
    using vc pw1 verifyChecksum_frame [of e tmp curl w1 None w2 p] by (auto split: if_splits)
  have tw2: "fs w2 tmp = Some \<lparr>content = fst (DownloadAsset e durl), mode = 384\<rparr>"
    using vc tw1 verifyChecksum_frame [of e tmp curl w1 None w2 tmp] by (auto split: if_splits)
  have p3: "files3 p = Some f"
    using os_Chmod_frame [OF cm, of p] ne pw2 by simp
  from cm tw2 have t3: "files3 tmp = Some \<lparr>content = fst (DownloadAsset e durl), mode = 493\<rparr>"
    by (auto simp: os_Chmod_def split: option.splits)
  have p4: "files4 p = Some f"
    using copyFile_frame [OF cp, of p] p3 by simp
  have t4: "files4 tmp = Some \<lparr>content = fst (DownloadAsset e durl), mode = 493\<rparr>"
    using copyFile_frame [OF cp, of tmp] nb t3 by simp
  from copyFile_done [OF cp] p3
  have b4: "files4 (p @ ''.backup'') = Some \<lparr>content = content f, mode = mode f\<rparr>" by auto
  have body: "downloadAndReplace_body e p tmp durl curl (w\<lparr>fs := files2\<rparr>) =
      (case os_Rename e tmp p files4 of
         (Some err, files5) \<Rightarrow>
           ((p @ ''.backup'', Some (Wrap ''failed to replace binary'' err [])), w2\<lparr>fs := files5\<rparr>)
       | (None, files5) \<Rightarrow> ((p @ ''.backup'', None), w2\<lparr>fs := files5\<rparr>))"
    using dl vc cm cp by (simp add: downloadAndReplace_body_def Let_def)
  have run: "downloadAndReplace e durl curl w =
           (case os_Rename e tmp p (fs w4) of
              (Some err, files5) \<Rightarrow>
                ((p @ ''.backup'', Some (Wrap ''failed to replace binary'' err [])),
                 w4\<lparr>fs := snd (os_Remove e tmp files5)\<rparr>)
            | (None, files5) \<Rightarrow>
                ((p @ ''.backup'', None), w4\<lparr>fs := snd (os_Remove e tmp files5)\<rparr>))"
    using exe ev [unfolded pe] cw [unfolded pe] ct body [unfolded pe] pe w4
    by (auto simp: downloadAndReplace_def split: prod.splits option.splits)
  from exe' live p4 b4 t4 ne nb run w4 show ?thesis by simp
qed

lemma replacementStep_not_reached:
  assumes none: "replacementStep e durl curl w = None"
  shows "fst (fst (downloadAndReplace e durl curl w)) = [] \<and>
         snd (fst (downloadAndReplace e durl curl w)) \<noteq> None"
proof (cases "Executable e")
  case (Inl e0)
  then show ?thesis by (simp add: downloadAndReplace_def)
next
  case exe: (Inr x)
  show ?thesis
  proof (cases "filepath_EvalSymlinks e x (fs w)")
    case (Inl e1)
    with exe show ?thesis by (simp add: downloadAndReplace_def)
  next
    case ev: (Inr p)
    obtain r1 files1 where cw: "checkWritePermission e p (fs w) = (r1, files1)" by fastforce
    show ?thesis
    proof (cases r1)
      case (Some e2)
      with exe ev cw show ?thesis by (simp add: downloadAndReplace_def)
    next
      case r1: None
      show ?thesis
      proof (cases "os_CreateTemp e ''tasklog-update-'' files1")
        case (Inl e3)
        with exe ev cw r1 show ?thesis by (simp add: downloadAndReplace_def)
      next
        case (Inr a)
        then obtain tmp files2 where ct: "os_CreateTemp e ''tasklog-update-'' files1 = Inr (tmp, files2)"
          by (cases a) simp
        have top: "fst (downloadAndReplace e durl curl w) =
            fst (downloadAndReplace_body e p tmp durl curl (w\<lparr>fs := files2\<rparr>))"
          using exe ev cw r1 ct by (simp add: downloadAndReplace_def case_prod_unfold)
        obtain r2 w1 where dl: "download_to e durl tmp (w\<lparr>fs := files2\<rparr>) = (r2, w1)" by fastforce
        show ?thesis
        proof (cases r2)
          case (Some e4)
          with top dl show ?thesis by (simp add: downloadAndReplace_body_def)
        next
          case r2: None
          obtain r3 w2 where vc: "(if curl \<noteq> [] then verifyChecksum e tmp curl w1 else (None, w1)) = (r3, w2)"
            by fastforce
          show ?thesis
          proof (cases r3)
            case (Some e5)
            with top dl r2 vc show ?thesis by (simp add: downloadAndReplace_body_def)
          next
            case r3: None
            obtain r4 files3 where cm: "os_Chmod e tmp 493 (fs w2) = (r4, files3)" by fastforce
            show ?thesis
            proof (cases r4)
              case (Some e6)
              with top dl r2 vc r3 cm show ?thesis by (simp add: downloadAndReplace_body_def)
            next
              case r4: None
              obtain r5 files4 where cp: "copyFile e p (p @ ''.backup'') files3 = (r5, files4)"
                by fastforce
              show ?thesis
              proof (cases r5)
                case (Some e7)
                with top dl r2 vc r3 cm r4 cp show ?thesis
                  by (simp add: downloadAndReplace_body_def Let_def)
              next
                case None
                with exe ev cw r1 ct dl r2 vc r3 cm r4 cp
                have "replacementStep e durl curl w = Some (p, tmp, w2\<lparr>fs := files4\<rparr>)"
                  by (simp add: replacementStep_def)
                with none show ?thesis by simp
              qed
            qed
          qed
        qed
      qed
    qed
  qed
qed

lemma downloadAndReplace_backup_returned:
  assumes "downloadAndReplace e downloadURL checksumURL w = ((backupPath, err), w')"
    and "backupPath \<noteq> []"
  shows "replacementStep e downloadURL checksumURL w \<noteq> None"
proof
  assume "replacementStep e downloadURL checksumURL w = None"
  from replacementStep_not_reached [OF this] assms show False by simp
qed

text \<open>
  Claim C2. When a call of \<^verbatim>\<open>downloadAndReplace\<close> reaches the replacement step, the
  world in which \<^verbatim>\<open>os.Rename\<close> is called already has, at the path of the executable
  followed by \<^verbatim>\<open>.backup\<close>, a file with the content and the mode of the executable,
  and the executable is still in its place: the backup is a copy, made before the
  rename. When the rename fails, the call returns that backup path, which is not
  empty, together with the error, and the executable is the file it was before the
  call; the backup is still there. When the rename succeeds, the call returns the
  backup path and no error, and the executable is the downloaded file.
\<close>

theorem downloadAndReplace_backup_then_rename:
  assumes "replacementStep e downloadURL checksumURL w = Some (binaryPath, tmpPath, w4)"
  shows "\<exists>f. fs w binaryPath = Some f \<and>
           fs w4 binaryPath = Some f \<and>
           fs w4 (binaryPath @ ''.backup'') = Some \<lparr>content = content f, mode = mode f\<rparr> \<and>
           (case os_Rename e tmpPath binaryPath (fs w4) of
              (Some cause, files5) \<Rightarrow>
                fst (downloadAndReplace e downloadURL checksumURL w) =
                  (binaryPath @ ''.backup'', Some (Wrap ''failed to replace binary'' cause [])) \<and>
                fs (snd (downloadAndReplace e downloadURL checksumURL w)) binaryPath = Some f \<and>
                fs (snd (downloadAndReplace e downloadURL checksumURL w)) (binaryPath @ ''.backup'') =
                  Some \<lparr>content = content f, mode = mode f\<rparr>
            | (None, files5) \<Rightarrow>
                fst (downloadAndReplace e downloadURL checksumURL w) =
                  (binaryPath @ ''.backup'', None) \<and>
                fs (snd (downloadAndReplace e downloadURL checksumURL w)) binaryPath =
                  Some \<lparr>content = fst (DownloadAsset e downloadURL), mode = 493\<rparr> \<and>
                fs (snd (downloadAndReplace e downloadURL checksumURL w)) (binaryPath @ ''.backup'') =
                  Some \<lparr>content = content f, mode = mode f\<rparr>)"
proof -
  let ?b = "binaryPath @ ''.backup''"
  note R = replacementStep_reached [OF assms]
  from R [THEN conjunct2, THEN conjunct1] obtain f where
    live: "fs w binaryPath = Some f" and p4: "fs w4 binaryPath = Some f"
    and b4: "fs w4 ?b = Some \<lparr>content = content f, mode = mode f\<rparr>"
    by (elim exE conjE)
  note t4 = R [THEN conjunct2, THEN conjunct2, THEN conjunct1]
  note ne = R [THEN conjunct2, THEN conjunct2, THEN conjunct2, THEN conjunct1]
  note nb = R [THEN conjunct2, THEN conjunct2, THEN conjunct2, THEN conjunct2, THEN conjunct1]
  note run = R [THEN conjunct2, THEN conjunct2, THEN conjunct2, THEN conjunct2, THEN conjunct2]
  obtain r5 files5 where m: "os_Rename e tmpPath binaryPath (fs w4) = (r5, files5)" by fastforce
  have pb: "?b \<noteq> binaryPath" by simp
  have b5: "files5 ?b = Some \<lparr>content = content f, mode = mode f\<rparr>"
    using os_Rename_frame [OF m, of ?b] nb b4 by simp
  have rest: "(case os_Rename e tmpPath binaryPath (fs w4) of
              (Some cause, files5) \<Rightarrow>
                fst (downloadAndReplace e downloadURL checksumURL w) =
                  (?b, Some (Wrap ''failed to replace binary'' cause [])) \<and>
                fs (snd (downloadAndReplace e downloadURL checksumURL w)) binaryPath = Some f \<and>
                fs (snd (downloadAndReplace e downloadURL checksumURL w)) ?b =
                  Some \<lparr>content = content f, mode = mode f\<rparr>
            | (None, files5) \<Rightarrow>
                fst (downloadAndReplace e downloadURL checksumURL w) = (?b, None) \<and>
                fs (snd (downloadAndReplace e downloadURL checksumURL w)) binaryPath =
                  Some \<lparr>content = fst (DownloadAsset e downloadURL), mode = 493\<rparr> \<and>
                fs (snd (downloadAndReplace e downloadURL checksumURL w)) ?b =
                  Some \<lparr>content = content f, mode = mode f\<rparr>)"
  proof (cases r5)
    case (Some cause)
    with os_Rename_failed [of e tmpPath binaryPath "fs w4" cause files5] m
    have "files5 = fs w4" by simp
    then have f5: "files5 = fs w4" .
    from run m Some have res: "downloadAndReplace e downloadURL checksumURL w =
        ((?b, Some (Wrap ''failed to replace binary'' cause [])),
         w4\<lparr>fs := snd (os_Remove e tmpPath files5)\<rparr>)"
      by simp
    have "fs (snd (downloadAndReplace e downloadURL checksumURL w)) binaryPath = Some f"
      using ne p4 by (simp add: res f5 os_Remove_frame)
    moreover have "fs (snd (downloadAndReplace e downloadURL checksumURL w)) ?b =
        Some \<lparr>content = content f, mode = mode f\<rparr>"
      using nb b4 by (simp add: res f5 os_Remove_frame)
    moreover have "fst (downloadAndReplace e downloadURL checksumURL w) =
        (?b, Some (Wrap ''failed to replace binary'' cause []))"
      by (simp add: res)
    ultimately show ?thesis by (simp only: m Some prod.case option.case)
  next
    case None
    with os_Rename_done [of e tmpPath binaryPath "fs w4" files5] m ne t4
    have "files5 binaryPath = Some \<lparr>content = fst (DownloadAsset e downloadURL), mode = 493\<rparr>"
      by simp
    then have q5: "files5 binaryPath =
        Some \<lparr>content = fst (DownloadAsset e downloadURL), mode = 493\<rparr>" .
    from run m None have res: "downloadAndReplace e downloadURL checksumURL w =
        ((?b, None), w4\<lparr>fs := snd (os_Remove e tmpPath files5)\<rparr>)"
      by simp
    have "fs (snd (downloadAndReplace e downloadURL checksumURL w)) binaryPath =
        Some \<lparr>content = fst (DownloadAsset e downloadURL), mode = 493\<rparr>"
      using ne q5 by (simp add: res os_Remove_frame)
    moreover have "fs (snd (downloadAndReplace e downloadURL checksumURL w)) ?b =
        Some \<lparr>content = content f, mode = mode f\<rparr>"
      using nb b5 by (simp add: res os_Remove_frame)
    moreover have "fst (downloadAndReplace e downloadURL checksumURL w) = (?b, None)"
      by (simp add: res)
    ultimately show ?thesis by (simp only: m None prod.case option.case)
  qed
  show ?thesis
  proof (rule exI [of _ f], intro conjI)
    show "fs w binaryPath = Some f" by (rule live)
    show "fs w4 binaryPath = Some f" by (rule p4)
    show "fs w4 ?b = Some \<lparr>content = content f, mode = mode f\<rparr>" by (rule b4)
  qed (rule rest)
qed

lemma example_replacementStep:
  "map_option (\<lambda>(p, tmp, w4). (p, tmp))
     (replacementStep example_env_rename_fails ''https://example.com/download-binary'' []
        example_world) =
   Some (''/opt/tasklog'', ''/tmp/tasklog-update-42'')"
  by (simp add: replacementStep_def installer_defs example_defs itoa_42 Let_def)

theorem downloadAndReplace_backup_then_rename_witness:
  "replacementStep example_env_rename_fails ''https://example.com/download-binary'' []
     example_world \<noteq> None \<and>
   fst (downloadAndReplace example_env_rename_fails ''https://example.com/download-binary'' []
          example_world) =
     (''/opt/tasklog.backup'',
      Some (Wrap ''failed to replace binary'' (External ''invalid cross-device link'') [])) \<and>
   fs (snd (downloadAndReplace example_env_rename_fails ''https://example.com/download-binary'' []
          example_world)) ''/opt/tasklog.backup'' = Some \<lparr>content = ''old binary'', mode = 493\<rparr> \<and>
   fs (snd (downloadAndReplace example_env_rename_fails ''https://example.com/download-binary'' []
          example_world)) ''/opt/tasklog'' = Some \<lparr>content = ''old binary'', mode = 493\<rparr>"
proof -
  from example_replacementStep obtain w4 where
    step: "replacementStep example_env_rename_fails ''https://example.com/download-binary'' []
        example_world = Some (''/opt/tasklog'', ''/tmp/tasklog-update-42'', w4)"
    by (cases "replacementStep example_env_rename_fails ''https://example.com/download-binary'' []
        example_world") auto
  have live: "fs example_world ''/opt/tasklog'' = Some \<lparr>content = ''old binary'', mode = 493\<rparr>"
    by (simp add: example_defs)
  have refused: "os_Rename example_env_rename_fails ''/tmp/tasklog-update-42'' ''/opt/tasklog'' (fs w4) =
      (Some (External ''invalid cross-device link''), fs w4)"
    by (simp add: os_Rename_def example_defs)
  from downloadAndReplace_backup_then_rename [OF step] obtain f where
    f: "fs example_world ''/opt/tasklog'' = Some f"
    and c: "case os_Rename example_env_rename_fails ''/tmp/tasklog-update-42'' ''/opt/tasklog'' (fs w4) of
              (Some cause, files5) \<Rightarrow>
                fst (downloadAndReplace example_env_rename_fails
                       ''https://example.com/download-binary'' [] example_world) =
                  (''/opt/tasklog'' @ ''.backup'', Some (Wrap ''failed to replace binary'' cause [])) \<and>
                fs (snd (downloadAndReplace example_env_rename_fails
                       ''https://example.com/download-binary'' [] example_world)) ''/opt/tasklog'' = Some f \<and>
                fs (snd (downloadAndReplace example_env_rename_fails
                       ''https://example.com/download-binary'' [] example_world))
                  (''/opt/tasklog'' @ ''.backup'') = Some \<lparr>content = content f, mode = mode f\<rparr>
            | (None, files5) \<Rightarrow>
                fst (downloadAndReplace example_env_rename_fails
                       ''https://example.com/download-binary'' [] example_world) =
                  (''/opt/tasklog'' @ ''.backup'', None) \<and>
                fs (snd (downloadAndReplace example_env_rename_fails
                       ''https://example.com/download-binary'' [] example_world)) ''/opt/tasklog'' =
                  Some \<lparr>content = fst (DownloadAsset example_env_rename_fails
                                           ''https://example.com/download-binary''), mode = 493\<rparr> \<and>
                fs (snd (downloadAndReplace example_env_rename_fails
                       ''https://example.com/download-binary'' [] example_world))
                  (''/opt/tasklog'' @ ''.backup'') = Some \<lparr>content = content f, mode = mode f\<rparr>"
    by (elim exE conjE)
  from f live have fv: "f = \<lparr>content = ''old binary'', mode = 493\<rparr>" by simp
  from c have d: "fst (downloadAndReplace example_env_rename_fails
                       ''https://example.com/download-binary'' [] example_world) =
                  (''/opt/tasklog'' @ ''.backup'',
                   Some (Wrap ''failed to replace binary'' (External ''invalid cross-device link'') [])) \<and>
                fs (snd (downloadAndReplace example_env_rename_fails
                       ''https://example.com/download-binary'' [] example_world)) ''/opt/tasklog'' = Some f \<and>
                fs (snd (downloadAndReplace example_env_rename_fails
                       ''https://example.com/download-binary'' [] example_world))
                  (''/opt/tasklog'' @ ''.backup'') = Some \<lparr>content = content f, mode = mode f\<rparr>"
    by (simp only: refused prod.case option.case)
  from step have "replacementStep example_env_rename_fails ''https://example.com/download-binary'' []
     example_world \<noteq> None" by simp
  with d fv show ?thesis by simp
qed

text \<open>
  Claim C3. For a checksum URL that is not empty, when the digest of what was
  downloaded differs from the trimmed text fetched from the checksum URL, the call
  fails and returns the empty backup path, so the replacement step is not reached, and
  the executable is the file it was before the call. When no other step fails, the
  error is the checksum mismatch, wrapped as \<^verbatim>\<open>checksum verification failed\<close>.
\<close>

theorem downloadAndReplace_checksum_mismatch:
  assumes "checksumURL \<noteq> []"
    and "downloadAndReplace e downloadURL checksumURL w = ((backupPath, err), w')"
    and "sha256_hex e (fst (DownloadAsset e downloadURL)) \<noteq>
           TrimSpace e (fst (DownloadAsset e checksumURL))"
  shows "backupPath = [] \<and> err \<noteq> None \<and>
         (\<forall>binaryPath. Executable e = Inr binaryPath \<longrightarrow> fs w' binaryPath = fs w binaryPath) \<and>
         (no_other_failure e downloadURL checksumURL w \<longrightarrow>
            err = Some (Wrap ''checksum verification failed''
                    (checksum_mismatch (TrimSpace e (fst (DownloadAsset e checksumURL)))
                       (sha256_hex e (fst (DownloadAsset e downloadURL)))) []))"
proof -
  from downloadAndReplace_outcome [OF assms(2)] assms(1) assms(3)
  have a: "backupPath = [] \<and> err \<noteq> None \<and>
         (\<forall>binaryPath. Executable e = Inr binaryPath \<longrightarrow> fs w' binaryPath = fs w binaryPath)"
    by auto
  have b: "no_other_failure e downloadURL checksumURL w \<longrightarrow>
            err = Some (Wrap ''checksum verification failed''
                    (checksum_mismatch (TrimSpace e (fst (DownloadAsset e checksumURL)))
                       (sha256_hex e (fst (DownloadAsset e downloadURL)))) [])"
    using downloadAndReplace_mismatch [of e downloadURL checksumURL w] assms by auto
  from a b show ?thesis by blast
qed

theorem downloadAndReplace_checksum_mismatch_witness:
  "''https://example.com/checksum'' \<noteq> [] \<and>
   no_other_failure example_env ''https://example.com/download-binary''
     ''https://example.com/checksum'' example_world \<and>
   fst (downloadAndReplace example_env ''https://example.com/download-binary''
          ''https://example.com/checksum'' example_world) =
     ([], Some (Wrap ''checksum verification failed''
        (checksum_mismatch ''9f14fce4d07a391b0ee54c7341931afaa9e391a4838a57e23d97a76b92c06f2a''
           ''2f17c9ffb972a6c5da72c2b3df01f7e2ccf52dad2c0059dac631232a15126d2e'') [])) \<and>
   fs (snd (downloadAndReplace example_env ''https://example.com/download-binary''
          ''https://example.com/checksum'' example_world)) ''/opt/tasklog'' =
     Some \<lparr>content = ''old binary'', mode = 493\<rparr>"
proof -
  let ?r = "downloadAndReplace example_env ''https://example.com/download-binary''
          ''https://example.com/checksum'' example_world"
  have url: "''https://example.com/checksum'' \<noteq> []" by simp
  have run: "?r = ((fst (fst ?r), snd (fst ?r)), snd ?r)" by simp
  have diff: "sha256_hex example_env (fst (DownloadAsset example_env ''https://example.com/download-binary''))
      \<noteq> TrimSpace example_env (fst (DownloadAsset example_env ''https://example.com/checksum''))"
    by (simp add: example_defs)
  have vals: "TrimSpace example_env (fst (DownloadAsset example_env ''https://example.com/checksum''))
       = ''9f14fce4d07a391b0ee54c7341931afaa9e391a4838a57e23d97a76b92c06f2a''"
    "sha256_hex example_env (fst (DownloadAsset example_env ''https://example.com/download-binary''))
       = ''2f17c9ffb972a6c5da72c2b3df01f7e2ccf52dad2c0059dac631232a15126d2e''"
    by (simp_all add: example_defs)
  have ok: "no_other_failure example_env ''https://example.com/download-binary''
     ''https://example.com/checksum'' example_world"
    by (simp add: no_other_failure_def example_defs temp_name_def itoa_42 filepath_Dir_def
        filepath_Join_def)
  have exe: "Executable example_env = Inr ''/opt/tasklog''"
    and live: "fs example_world ''/opt/tasklog'' = Some \<lparr>content = ''old binary'', mode = 493\<rparr>"
    by (simp_all add: example_defs)
  from downloadAndReplace_checksum_mismatch [OF url run diff] ok exe live vals
  show ?thesis by (auto simp: prod_eq_iff)
qed

text \<open>
  Claim C9. After a positive answer \<^verbatim>\<open>PerformUpgrade\<close> is the call of
  \<^verbatim>\<open>downloadAndReplace\<close> with the empty checksum URL. The only query it can send is
  the download of the asset: no call of \<^verbatim>\<open>verifyChecksum\<close> is recorded, and the
  error returned is never the one of a failed checksum verification.
\<close>

theorem PerformUpgrade_skips_checksum:
  assumes "confirm ''Do you want to upgrade now?''"
    and "PerformUpgrade e updateInfo confirm w = ((backupPath, err), w')"
  shows "downloadAndReplace e (ui_DownloadURL updateInfo) []
           (w\<lparr>stdout := stdout w @ upgradeSummary updateInfo @ [PrintDownloading]\<rparr>) =
           ((backupPath, err), w') \<and>
         (events w' = events w \<or>
          events w' = events w @ [DownloadAssetCall (ui_DownloadURL updateInfo)]) \<and>
         (\<forall>filePath url. VerifyChecksumCall filePath url \<in> set (events w') \<longrightarrow>
            VerifyChecksumCall filePath url \<in> set (events w)) \<and>
         (\<forall>cause suffix. err \<noteq> Some (Wrap ''checksum verification failed'' cause suffix))"
proof -
  let ?w = "w\<lparr>stdout := stdout w @ upgradeSummary updateInfo @ [PrintDownloading]\<rparr>"
  from assms have run: "downloadAndReplace e (ui_DownloadURL updateInfo) [] ?w = ((backupPath, err), w')"
    by (auto simp: PerformUpgrade_def Let_def split: prod.splits option.splits)
  from downloadAndReplace_no_checksum [OF run]
  have ev: "events w' = events w \<or> events w' = events w @ [DownloadAssetCall (ui_DownloadURL updateInfo)]"
    and er: "\<forall>cause suffix. err \<noteq> Some (Wrap ''checksum verification failed'' cause suffix)"
    by auto
  from ev have "\<forall>filePath url. VerifyChecksumCall filePath url \<in> set (events w') \<longrightarrow>
            VerifyChecksumCall filePath url \<in> set (events w)"
    by auto
  with run ev er show ?thesis by blast
qed

lemma example_upgrade_run:
  "fst (PerformUpgrade example_env example_info (\<lambda>prompt. True) example_world) =
     (''/opt/tasklog.backup'', None) \<and>
   events (snd (PerformUpgrade example_env example_info (\<lambda>prompt. True) example_world)) =
     [DownloadAssetCall ''https://example.com/download-binary'']"
  by (simp add: PerformUpgrade_def installer_defs example_defs itoa_42 Let_def)

theorem PerformUpgrade_skips_checksum_witness:
  "(\<lambda>prompt. True) ''Do you want to upgrade now?'' \<and>
   fst (PerformUpgrade example_env example_info (\<lambda>prompt. True) example_world) =
     (''/opt/tasklog.backup'', None) \<and>
   events (snd (PerformUpgrade example_env example_info (\<lambda>prompt. True) example_world)) =
     [DownloadAssetCall ''https://example.com/download-binary''] \<and>
   (\<forall>filePath url. VerifyChecksumCall filePath url \<notin>
      set (events (snd (PerformUpgrade example_env example_info (\<lambda>prompt. True) example_world))))"
proof -
  let ?r = "PerformUpgrade example_env example_info (\<lambda>prompt. True) example_world"
  have c: "(\<lambda>prompt. True) ''Do you want to upgrade now?''" by simp
  have run: "?r = ((fst (fst ?r), snd (fst ?r)), snd ?r)" by simp
  have ev: "events example_world = []" by (simp add: example_defs)
  from PerformUpgrade_skips_checksum [OF c run] ev example_upgrade_run
  show ?thesis by auto
qed

end
